theory Spec2Isabelle
  imports Complex_Main "HOL-Library.AList" "HOL-Library.Sublist" "HOL-Library.Log_Nat"
begin

section \<open>Python values, exceptions and effects\<close>

text \<open>
  The exceptions the retrieval and answering code raises, catches or lets through.
  \<open>ClientError\<close> and \<open>ParamValidationError\<close> are botocore's; neither is a subclass of the
  other. \<open>OtherError\<close> stands for any exception of an external service that the code
  names nowhere.
\<close>

datatype error =
    KeyError | IndexError | AttributeError | TypeError | ValueError
  | JSONDecodeError | ClientError | ParamValidationError | BedrockHelperError | OtherError

text \<open>
  The values \<open>json.loads\<close> produces and \<open>json.dumps\<close> consumes. A number is kept as the
  rational it is written as. A dictionary is an association list with distinct keys, in
  insertion order.
\<close>

datatype json =
    JNull | JBool bool | JNum rat | JStr string | JArr "json list" | JObj "(string \<times> json) list"

text \<open>
  \<open>d.get(k, default)\<close>; only a dictionary has the method. \<open>x[0]\<close>: the first element of a
  list or the first character of a string, \<open>IndexError\<close> when empty, \<open>KeyError\<close> on a
  dictionary (whose keys are strings), \<open>TypeError\<close> on the values that cannot be subscripted.
  \<open>truthy\<close> is the test of \<open>if x:\<close>.
\<close>

definition py_get :: "json \<Rightarrow> string \<Rightarrow> json \<Rightarrow> error + json" where
  "py_get d k dflt =
     (case d of
        JObj kvs \<Rightarrow> (case map_of kvs k of Some v \<Rightarrow> Inr v | None \<Rightarrow> Inr dflt)
      | _ \<Rightarrow> Inl AttributeError)"

definition py_item0 :: "json \<Rightarrow> error + json" where
  "py_item0 x =
     (case x of
        JArr [] \<Rightarrow> Inl IndexError
      | JArr (y # _) \<Rightarrow> Inr y
      | JStr [] \<Rightarrow> Inl IndexError
      | JStr (c # _) \<Rightarrow> Inr (JStr [c])
      | JObj _ \<Rightarrow> Inl KeyError
      | _ \<Rightarrow> Inl TypeError)"

definition truthy :: "json \<Rightarrow> bool" where
  "truthy x =
     (case x of
        JNull \<Rightarrow> False
      | JBool b \<Rightarrow> b
      | JNum n \<Rightarrow> n \<noteq> 0
      | JStr s \<Rightarrow> s \<noteq> []
      | JArr xs \<Rightarrow> xs \<noteq> []
      | JObj kvs \<Rightarrow> kvs \<noteq> [])"

text \<open>\<open>sep.join(strs)\<close> on a list of strings.\<close>

fun join_strings :: "string \<Rightarrow> string list \<Rightarrow> string" where
  "join_strings sep [] = []"
| "join_strings sep [s] = s"
| "join_strings sep (s # t # ss) = s @ sep @ join_strings sep (t # ss)"

fun the_strings :: "json list \<Rightarrow> error + string list" where
  "the_strings [] = Inr []"
| "the_strings (JStr s # xs) =
     (case the_strings xs of Inl e \<Rightarrow> Inl e | Inr ss \<Rightarrow> Inr (s # ss))"
| "the_strings (_ # xs) = Inl TypeError"

text \<open>
  \<open>sep.join(x)\<close> on a JSON value: a list must hold strings only, a string is joined
  character by character, a dictionary by its keys; nothing else is iterable.
\<close>

definition py_join :: "string \<Rightarrow> json \<Rightarrow> error + string" where
  "py_join sep x =
     (case x of
        JArr xs \<Rightarrow> (case the_strings xs of Inl e \<Rightarrow> Inl e | Inr ss \<Rightarrow> Inr (join_strings sep ss))
      | JStr s \<Rightarrow> Inr (join_strings sep (map (\<lambda>c. [c]) s))
      | JObj kvs \<Rightarrow> Inr (join_strings sep (map fst kvs))
      | _ \<Rightarrow> Inl TypeError)"

text \<open>
  \<open>xs[i]\<close> on a list of length \<open>n\<close>: an index below zero counts from the end, so the
  position read is \<open>n + i\<close> for it; a position outside the list raises \<open>IndexError\<close>.
\<close>

definition position :: "nat \<Rightarrow> int \<Rightarrow> int" where
  "position n i = (if i < 0 then int n + i else i)"

definition py_nth :: "'a list \<Rightarrow> int \<Rightarrow> error + 'a" where
  "py_nth xs i =
     (if 0 \<le> position (length xs) i \<and> position (length xs) i < int (length xs)
      then Inr (xs ! nat (position (length xs) i))
      else Inl IndexError)"

section \<open>Floating-point numbers\<close>

text \<open>
  Python reads a number written with a fraction as an IEEE 754 double, the nearest one
  with ties to the even significand, and rounds every product in the same way.
  \<open>double_of r\<close> is the double nearest to the rational \<open>r\<close>: with \<open>e\<close> the exponent of the
  last place (\<open>floor_log2 r - 52\<close>, and \<open>-1074\<close> in the subnormal range) it is the integer
  nearest to \<open>r / 2 ^ e\<close>, times \<open>2 ^ e\<close>. Infinities and NaN are outside the model: no
  bound is put on the exponent from above.
\<close>

definition round_half_even :: "rat \<Rightarrow> int" where
  "round_half_even x =
     (if x - of_int \<lfloor>x\<rfloor> < 1 / 2 then \<lfloor>x\<rfloor>
      else if 1 / 2 < x - of_int \<lfloor>x\<rfloor> then \<lfloor>x\<rfloor> + 1
      else if even \<lfloor>x\<rfloor> then \<lfloor>x\<rfloor> else \<lfloor>x\<rfloor> + 1)"

text \<open>For \<open>r > 0\<close>, the integer \<open>k\<close> with \<open>2 ^ k \<le> r < 2 ^ (k + 1)\<close>.\<close>

definition floor_log2 :: "rat \<Rightarrow> int" where
  "floor_log2 r = (if 1 \<le> r then bitlen \<lfloor>r\<rfloor> - 1 else - bitlen (\<lceil>1 / r\<rceil> - 1))"

definition double_exponent :: "rat \<Rightarrow> int" where
  "double_exponent r = max (floor_log2 \<bar>r\<bar> - 52) (- 1074)"

definition double_of :: "rat \<Rightarrow> rat" where
  "double_of r =
     (if r = 0 then 0
      else sgn r * of_int (round_half_even (\<bar>r\<bar> / 2 powi double_exponent r))
           * 2 powi double_exponent r)"

section \<open>Search hits and configuration\<close>

text \<open>
  A search hit is the dictionary OpenSearch returns for one document. The key \<open>_id\<close> is
  read with \<open>d.get('_id')\<close>, so an absent key reads as Python's \<open>None\<close>: the field is an
  option. The key \<open>_source\<close> holds the document's fields, a dictionary from field names to
  text.
\<close>

record hit =
  hit_id :: "string option"
  hit_score :: rat
  hit_source :: "(string \<times> string) list"

text \<open>
  One entry of the reranking model's \<open>results\<close>: a position in the submitted list and
  its score as the response body writes it. The code reads the score once with
  \<open>.get("relevance_score", 0)\<close> and once with \<open>["relevance_score"]\<close>, so it is an option.
\<close>

record rerank_result =
  result_index :: int
  relevance_score :: "rat option"

record field_alias =
  alias_name :: string
  alias_alias :: string

text \<open>
  The settings the code reads from the cached configuration. \<open>ai\<close> is the section of that
  name (\<open>None\<close> when the section is absent); \<open>rerank_model_id\<close>, \<open>vector_field_name\<close>,
  \<open>ndx_custom_fields\<close> and \<open>ndx_custom_field_aliases\<close> are keys of the section \<open>aoss\<close>,
  the last one \<open>None\<close> when the key is absent.
\<close>

record config =
  ai :: "(string \<times> string) list option"
  rerank_model_id :: "string option"
  vector_field_name :: string
  ndx_custom_fields :: "string list"
  ndx_custom_field_aliases :: "field_alias list option"

datatype level = WARNING | ERROR

text \<open>
  What a run leaves behind, in order: the warning and error records it logs (the message
  template and the values formatted into it; info and debug records are left out), and
  its calls to the external services.
\<close>

datatype event =
    LogRecord level string "json list"
  | BuildRequestBody "string option" "json list" "string list"
  | InvokeModel "json option" "(string \<times> string) option"
  | GetEmbeddings string
  | Search json
  | InvokeRerank string json

text \<open>
  The external collaborators, each a function of its arguments: \<open>json.loads\<close> on a text
  (\<open>None\<close> for \<open>JSONDecodeError\<close>); \<open>BedrockHelper.build_request_body\<close>, which instantiates a
  prompt template of the configuration (template id, values, instruction values) and may
  return \<open>None\<close>; the Bedrock runtime's \<open>invoke_model\<close> (request body, guardrail identifier
  and version), returning the text of the response body; the embedding model; the
  OpenSearch client's \<open>search\<close>, returning \<open>results["hits"]["hits"]\<close>; the reranking
  model (model id, payload), returning the \<open>results\<close> of its response body.
\<close>

record world =
  json_loads :: "string \<Rightarrow> json option"
  build_request_body :: "string option \<Rightarrow> json list \<Rightarrow> string list \<Rightarrow> error + json option"
  bedrock_invoke :: "json option \<Rightarrow> (string \<times> string) option \<Rightarrow> error + string"
  get_embeddings :: "string \<Rightarrow> error + rat list"
  opensearch_search :: "json \<Rightarrow> error + hit list"
  rerank_invoke :: "string \<Rightarrow> json \<Rightarrow> error + rerank_result list"

text \<open>
  A computation returns its value or the exception it raised, and the events it left.
\<close>

type_synonym 'a io = "(error + 'a) \<times> event list"

definition io_return :: "'a \<Rightarrow> 'a io" where
  "io_return x = (Inr x, [])"

definition io_raise :: "error \<Rightarrow> 'a io" where
  "io_raise e = (Inl e, [])"

definition io_lift :: "error + 'a \<Rightarrow> 'a io" where
  "io_lift r = (r, [])"

definition io_call :: "event \<Rightarrow> error + 'a \<Rightarrow> 'a io" where
  "io_call ev r = (r, [ev])"

definition io_log :: "level \<Rightarrow> string \<Rightarrow> json list \<Rightarrow> unit io" where
  "io_log l msg args = (Inr (), [LogRecord l msg args])"

definition io_bind :: "'a io \<Rightarrow> ('a \<Rightarrow> 'b io) \<Rightarrow> 'b io" where
  "io_bind m f =
     (case fst m of
        Inl e \<Rightarrow> (Inl e, snd m)
      | Inr x \<Rightarrow> (fst (f x), snd m @ snd (f x)))"

text \<open>\<open>try: m except ...: h\<close>; the events of the failed body stay.\<close>

definition io_try :: "'a io \<Rightarrow> (error \<Rightarrow> 'a io) \<Rightarrow> 'a io" where
  "io_try m h =
     (case fst m of
        Inl e \<Rightarrow> (fst (h e), snd m @ snd (h e))
      | Inr x \<Rightarrow> m)"

section \<open>BedrockHelper\<close>

definition invoke_model_response ::
  "world \<Rightarrow> json option \<Rightarrow> (string \<times> string) option \<Rightarrow> string io" where
  "invoke_model_response w body guardrail =
     io_call (InvokeModel body guardrail) (bedrock_invoke w body guardrail)"

definition invoke_model :: "world \<Rightarrow> json option \<Rightarrow> json io" where
  "invoke_model w body =
     io_bind (invoke_model_response w body None) (\<lambda>raw.
       case json_loads w raw of
         None \<Rightarrow> io_raise JSONDecodeError
       | Some response_body \<Rightarrow>
           io_bind (io_lift (py_get response_body ''error'' JNull)) (\<lambda>finish_reason.
             if finish_reason \<noteq> JNull then io_raise BedrockHelperError
             else io_return response_body))"

definition call_build_request_body ::
  "world \<Rightarrow> string option \<Rightarrow> json list \<Rightarrow> string list \<Rightarrow> json option io" where
  "call_build_request_body w template_id vals instruction_values =
     io_call (BuildRequestBody template_id vals instruction_values)
       (build_request_body w template_id vals instruction_values)"

text \<open>\<open>json.loads(x)\<close> on a value read from a response: only a string can be parsed.\<close>

definition loads :: "world \<Rightarrow> json \<Rightarrow> error + json" where
  "loads w x =
     (case x of
        JStr s \<Rightarrow> (case json_loads w s of None \<Rightarrow> Inl JSONDecodeError | Some v \<Rightarrow> Inr v)
      | _ \<Rightarrow> Inl TypeError)"

section \<open>QueryAnalyzer\<close>

record query_elements =
  query_target_type :: json
  inferred_instructions :: json
  search_elements :: json

record query_intent =
  intent :: json
  reformulated_query :: json

text \<open>The first content block of the model's answer, parsed; \<open>{}\<close> when there is none.\<close>

definition answer_json :: "world \<Rightarrow> json \<Rightarrow> json io" where
  "answer_json w llm_answer =
     io_bind (io_lift (py_get llm_answer ''content'' (JArr []))) (\<lambda>content.
       if truthy content
       then io_bind (io_lift (py_item0 content)) (\<lambda>block.
              io_bind (io_lift (py_get block ''text'' (JStr ''{}''))) (\<lambda>text.
                io_lift (loads w text)))
       else io_return (JObj []))"

definition json_decode_handler :: "error \<Rightarrow> 'a option io" where
  "json_decode_handler e =
     (if e = JSONDecodeError
      then io_bind (io_log WARNING ''Failed to parse JSON from LLM response: %s'' [])
             (\<lambda>_. io_return None)
      else io_raise e)"

definition analyze_query :: "world \<Rightarrow> json \<Rightarrow> string option \<Rightarrow> query_elements option io" where
  "analyze_query w query prompt_template =
     (let template = (case prompt_template of
                        None \<Rightarrow> ''analyze_query''
                      | Some t \<Rightarrow> if t = [] then ''analyze_query'' else t)
      in io_bind (call_build_request_body w (Some template) [query] []) (\<lambda>request_body.
           io_try
             (io_bind (invoke_model w request_body) (\<lambda>llm_answer.
                io_bind (answer_json w llm_answer) (\<lambda>json_text.
                  io_bind (io_lift (py_get json_text ''query_target_type'' (JStr ''undefined''))) (\<lambda>t.
                    io_bind (io_lift (py_get json_text ''inferred_instructions'' (JStr ''undefined''))) (\<lambda>i.
                      io_bind (io_lift (py_get json_text ''search_elements'' (JArr []))) (\<lambda>s.
                        io_return (Some \<lparr>query_target_type = t, inferred_instructions = i,
                                          search_elements = s\<rparr>)))))))
             json_decode_handler))"

definition get_query_intent :: "world \<Rightarrow> string \<Rightarrow> query_intent option io" where
  "get_query_intent w query =
     io_bind (call_build_request_body w (Some ''get_query_intent'') [JStr query] []) (\<lambda>request_body.
       io_try
         (io_bind (invoke_model w request_body) (\<lambda>llm_answer.
            io_bind (answer_json w llm_answer) (\<lambda>json_text.
              io_bind (io_lift (py_get json_text ''intent'' (JStr ''undefined''))) (\<lambda>i.
                io_bind (io_lift (py_get json_text ''reformulated_query'' (JStr ''undefined''))) (\<lambda>r.
                  io_return (Some \<lparr>intent = i, reformulated_query = r\<rparr>))))))
         json_decode_handler)"

text \<open>
  \<open>ai.get("bedrock_guardrail_id", "not_found")\<close> and
  \<open>ai.get("bedrock_guardrail_version", "DRAFT")\<close>, with \<open>ai = self.config.get("ai", {})\<close>.
\<close>

definition ai_get :: "config \<Rightarrow> string \<Rightarrow> string \<Rightarrow> string" where
  "ai_get cfg k dflt =
     (case ai cfg of
        None \<Rightarrow> dflt
      | Some section \<Rightarrow> (case map_of section k of None \<Rightarrow> dflt | Some v \<Rightarrow> v))"

definition guardrail_body :: "string \<Rightarrow> json" where
  "guardrail_body query =
     JObj [(''anthropic_version'', JStr ''bedrock-2023-05-31''),
           (''messages'', JArr [JObj [(''role'', JStr ''user''), (''content'', JStr query)]]),
           (''max_tokens'', JNum 1)]"

definition is_query_allowed :: "world \<Rightarrow> config \<Rightarrow> string \<Rightarrow> bool io" where
  "is_query_allowed w cfg query =
     (let guardrail_id = ai_get cfg ''bedrock_guardrail_id'' ''not_found''
      in if guardrail_id = ''not_found''
         then io_bind (io_log WARNING ''Guardrail not set. User query not checked.'' [])
                (\<lambda>_. io_return True)
         else
           (let guardrail_version = ai_get cfg ''bedrock_guardrail_version'' ''DRAFT''
            in io_bind (invoke_model_response w (Some (guardrail_body query))
                          (Some (guardrail_id, guardrail_version))) (\<lambda>raw.
                 case json_loads w raw of
                   None \<Rightarrow> io_raise JSONDecodeError
                 | Some response_body \<Rightarrow>
                     io_bind (io_lift (py_get response_body ''amazon-bedrock-guardrailAction'' JNull))
                       (\<lambda>action. io_return (action \<noteq> JStr ''INTERVENED'')))))"

section \<open>Translator\<close>

definition translate :: "world \<Rightarrow> config \<Rightarrow> string \<Rightarrow> string option \<Rightarrow> json option io" where
  "translate w cfg query language_code =
     (let target_language = (case language_code of
                               None \<Rightarrow> ''en''
                             | Some l \<Rightarrow> if l = [] then ''en'' else l)
      in case ai cfg of
           None \<Rightarrow> io_raise KeyError
         | Some section \<Rightarrow>
             io_bind (call_build_request_body w (map_of section ''prompt_translate_template_id'')
                        [JStr query, JStr target_language] []) (\<lambda>request_body.
               io_try
                 (io_bind (invoke_model w request_body) (\<lambda>translated_query.
                    io_return (Some translated_query)))
                 (\<lambda>e. if e = ParamValidationError then io_raise ValueError
                      else if e = ClientError
                      then io_bind (io_log ERROR ''AWS client error during translation: %s'' [])
                             (\<lambda>_. io_return None)
                      else io_raise e)))"

section \<open>ReRanker\<close>

text \<open>\<open>[hit["_source"]["AMAZON_BEDROCK_TEXT_CHUNK"] for hit in results]\<close>\<close>

fun chunk_texts :: "hit list \<Rightarrow> error + string list" where
  "chunk_texts [] = Inr []"
| "chunk_texts (h # hs) =
     (case map_of (hit_source h) ''AMAZON_BEDROCK_TEXT_CHUNK'' of
        None \<Rightarrow> Inl KeyError
      | Some chunk \<Rightarrow> (case chunk_texts hs of Inl e \<Rightarrow> Inl e | Inr cs \<Rightarrow> Inr (chunk # cs)))"

definition rerank_payload :: "json \<Rightarrow> string list \<Rightarrow> json" where
  "rerank_payload query documents =
     JObj [(''query'', query), (''documents'', JArr (map JStr documents)),
           (''top_n'', JNum 8), (''api_version'', JNum 2)]"

text \<open>\<open>response_body["results"][0].get("relevance_score", 0)\<close>\<close>

definition top_score_of :: "rerank_result list \<Rightarrow> error + rat" where
  "top_score_of response =
     (case response of
        [] \<Rightarrow> Inl IndexError
      | r # _ \<Rightarrow> Inr (case relevance_score r of None \<Rightarrow> 0 | Some s \<Rightarrow> double_of s))"

text \<open>\<open>threshold = top_score * 0.40\<close>, a product of doubles.\<close>

definition threshold_of :: "rat \<Rightarrow> rat" where
  "threshold_of top_score = double_of (top_score * double_of 0.40)"

text \<open>
  \<open>[result["index"] for result in response_body["results"]
     if result["relevance_score"] > threshold]\<close>
\<close>

fun matching_indices :: "rat \<Rightarrow> rerank_result list \<Rightarrow> error + int list" where
  "matching_indices threshold [] = Inr []"
| "matching_indices threshold (r # rs) =
     (case relevance_score r of
        None \<Rightarrow> Inl KeyError
      | Some s \<Rightarrow>
          (case matching_indices threshold rs of
             Inl e \<Rightarrow> Inl e
           | Inr is \<Rightarrow> Inr (if double_of s > threshold then result_index r # is else is)))"

text \<open>\<open>[results[i] for i in matching_indices]\<close>\<close>

fun pick_results :: "hit list \<Rightarrow> int list \<Rightarrow> error + hit list" where
  "pick_results results [] = Inr []"
| "pick_results results (i # is) =
     (case py_nth results i of
        Inl e \<Rightarrow> Inl e
      | Inr h \<Rightarrow> (case pick_results results is of Inl e \<Rightarrow> Inl e | Inr hs \<Rightarrow> Inr (h # hs)))"

definition rerank_results :: "world \<Rightarrow> string \<Rightarrow> json \<Rightarrow> hit list \<Rightarrow> hit list io" where
  "rerank_results w model_id query results =
     (if results = []
      then io_bind (io_log WARNING ''No results provided for reranking.'' []) (\<lambda>_. io_return [])
      else
        io_bind (io_lift (chunk_texts results)) (\<lambda>documents.
          io_bind (io_call (InvokeRerank model_id (rerank_payload query documents))
                     (rerank_invoke w model_id (rerank_payload query documents))) (\<lambda>response.
            io_bind (io_lift (top_score_of response)) (\<lambda>top_score.
              io_bind (io_lift (matching_indices (threshold_of top_score) response)) (\<lambda>indices.
                io_lift (pick_results results indices))))))"

section \<open>EpDocumentsRetriever\<close>

text \<open>
  \<open>__get_distinct_values\<close>: the loop over \<open>lst\<close> with its two variables, the set \<open>seen\<close> of
  the identities met so far and the list \<open>unique\<close> of the hits kept.
\<close>

fun distinct_loop :: "hit list \<Rightarrow> string option set \<Rightarrow> hit list \<Rightarrow> hit list" where
  "distinct_loop [] seen unique = unique"
| "distinct_loop (d # lst) seen unique =
     (if hit_id d \<notin> seen
      then distinct_loop lst (insert (hit_id d) seen) (unique @ [d])
      else distinct_loop lst seen unique)"

definition get_distinct_values :: "hit list \<Rightarrow> hit list" where
  "get_distinct_values lst = distinct_loop lst {} []"

text \<open>
  Step 7 of \<open>retrieve_context\<close>: \<open>combined_results = results_knn + results_bm25\<close>, then the
  deduplication.
\<close>

definition merge_hits :: "hit list \<Rightarrow> hit list \<Rightarrow> hit list" where
  "merge_hits results_knn results_bm25 = get_distinct_values (results_knn @ results_bm25)"

definition with_source_fields :: "string list option \<Rightarrow> (string \<times> json) list \<Rightarrow> json" where
  "with_source_fields include_fields search_body =
     (case include_fields of
        None \<Rightarrow> JObj search_body
      | Some names \<Rightarrow> JObj (AList.update ''_source'' (JArr (map JStr names)) search_body))"

definition get_knn_search_body :: "config \<Rightarrow> nat \<Rightarrow> rat list \<Rightarrow> (string \<times> json) list" where
  "get_knn_search_body cfg max_num_of_results search_vector =
     [(''size'', JNum (of_nat max_num_of_results)),
      (''query'', JObj [(''knn'', JObj [(vector_field_name cfg,
          JObj [(''vector'', JArr (map JNum search_vector)),
                (''k'', JNum (of_nat max_num_of_results))])])])]"

definition get_bm25_search_body :: "nat \<Rightarrow> json \<Rightarrow> (string \<times> json) list" where
  "get_bm25_search_body max_num_of_results query =
     [(''query'', JObj [(''multi_match'', JObj
          [(''query'', query),
           (''fields'', JArr [JStr ''AMAZON_BEDROCK_TEXT_CHUNK'', JStr ''longtitle'']),
           (''type'', JStr ''best_fields''),
           (''operator'', JStr ''or''),
           (''fuzziness'', JStr ''AUTO'')])]),
      (''size'', JNum (of_nat max_num_of_results)),
      (''from'', JNum 0)]"

text \<open>
  Both searches re-raise a \<open>ClientError\<close> and turn a \<open>ParamValidationError\<close> into a
  \<open>ValueError\<close>; any other exception passes through.
\<close>

definition search_handler :: "error \<Rightarrow> hit list io" where
  "search_handler e =
     (if e = ClientError then io_raise e
      else if e = ParamValidationError then io_raise ValueError
      else io_raise e)"

definition perform_vector_search ::
  "world \<Rightarrow> config \<Rightarrow> rat list \<Rightarrow> nat \<Rightarrow> string list option \<Rightarrow> hit list io" where
  "perform_vector_search w cfg vector number_of_results include_fields =
     (let search_body = with_source_fields include_fields
                          (get_knn_search_body cfg number_of_results vector)
      in io_try (io_call (Search search_body) (opensearch_search w search_body)) search_handler)"

definition perform_bm25_search ::
  "world \<Rightarrow> json \<Rightarrow> nat \<Rightarrow> string list option \<Rightarrow> hit list io" where
  "perform_bm25_search w query number_of_results include_fields =
     (let search_body = with_source_fields include_fields
                          (get_bm25_search_body number_of_results query)
      in io_try (io_call (Search search_body) (opensearch_search w search_body)) search_handler)"

definition translate_to_french :: "world \<Rightarrow> config \<Rightarrow> string \<Rightarrow> json option io" where
  "translate_to_french w cfg query = translate w cfg query (Some ''fr'')"

definition preprocess_query :: "world \<Rightarrow> json \<Rightarrow> json io" where
  "preprocess_query w query =
     io_bind (analyze_query w query (Some ''analyze_query'')) (\<lambda>query_elements.
       case query_elements of
         Some qe \<Rightarrow> io_bind (io_lift (py_join '', '' (search_elements qe))) (\<lambda>s. io_return (JStr s))
       | None \<Rightarrow> io_return query)"

text \<open>
  Step 4 of \<open>retrieve_context\<close>: \<open>translated_query = query\<close>, then inside \<open>try\<close> the call of
  \<open>translate_to_french\<close> and the read \<open>.get("content", [{}])[0].get("text", query)\<close> of its
  result (an \<open>AttributeError\<close> when the result is \<open>None\<close>); \<open>except Exception\<close> logs a warning
  and leaves \<open>translated_query\<close> as it was.
\<close>

definition translated_query_of :: "world \<Rightarrow> config \<Rightarrow> string \<Rightarrow> json io" where
  "translated_query_of w cfg query =
     io_try
       (io_bind (translate_to_french w cfg query) (\<lambda>translation_result.
          case translation_result of
            None \<Rightarrow> io_raise AttributeError
          | Some r \<Rightarrow>
              io_bind (io_lift (py_get r ''content'' (JArr [JObj []]))) (\<lambda>content.
                io_bind (io_lift (py_item0 content)) (\<lambda>block.
                  io_lift (py_get block ''text'' (JStr query))))))
       (\<lambda>e. io_bind (io_log WARNING ''Query translation failed, using original query. Error: {e}'' [])
              (\<lambda>_. io_return (JStr query)))"

text \<open>\<open>if self.rerank_model_id:\<close> holds for a model id that is set and not empty.\<close>

definition rerank_configured :: "config \<Rightarrow> bool" where
  "rerank_configured cfg =
     (case rerank_model_id cfg of None \<Rightarrow> False | Some m \<Rightarrow> m \<noteq> [])"

text \<open>Steps 5 to 8 of \<open>retrieve_context\<close>, from the translated query and the vector hits.\<close>

definition lexical_merge_rerank ::
  "world \<Rightarrow> config \<Rightarrow> string list option \<Rightarrow> hit list \<Rightarrow> json \<Rightarrow> hit list io" where
  "lexical_merge_rerank w cfg include_fields results_knn translated_query =
     io_bind (preprocess_query w translated_query) (\<lambda>query_entities.
       io_bind (perform_bm25_search w query_entities 5 include_fields) (\<lambda>results_bm25.
         let distinct_results = merge_hits results_knn results_bm25
         in if rerank_configured cfg
            then rerank_results w (the (rerank_model_id cfg)) translated_query distinct_results
            else io_return distinct_results))"

definition retrieve_context ::
  "world \<Rightarrow> config \<Rightarrow> string \<Rightarrow> string list option \<Rightarrow> hit list io" where
  "retrieve_context w cfg query include_fields =
     io_bind (io_call (GetEmbeddings query) (get_embeddings w query)) (\<lambda>query_embeddings.
       let num_results = (if rerank_configured cfg then 20 else 8)
       in io_bind (perform_vector_search w cfg query_embeddings num_results include_fields)
            (\<lambda>results_knn.
              io_bind (translated_query_of w cfg query)
                (lexical_merge_rerank w cfg include_fields results_knn)))"

section \<open>ClaudeContextFormatter\<close>

text \<open>
  \<open>str(n)\<close> for a natural number, and \<open>remove_non_printable\<close>. A character is a code point
  below 256; \<open>str.isprintable\<close> holds there for the ASCII range from the space to the
  tilde and for the Latin-1 range above the no-break space, the soft hyphen excepted.
\<close>

fun str_nat :: "nat \<Rightarrow> string" where
  "str_nat n =
     (if n < 10 then [''0123456789'' ! n]
      else str_nat (n div 10) @ [''0123456789'' ! (n mod 10)])"

declare str_nat.simps [simp del]

definition isprintable :: "char \<Rightarrow> bool" where
  "isprintable c =
     (let n = (of_char c :: nat)
      in (32 \<le> n \<and> n \<le> 126) \<or> (161 \<le> n \<and> n \<noteq> 173))"

definition remove_non_printable :: "string \<Rightarrow> string" where
  "remove_non_printable input_string = filter isprintable input_string"

text \<open>\<open>s.replace(a, b)\<close> for single characters \<open>a\<close> and \<open>b\<close>.\<close>

definition replace_char :: "char \<Rightarrow> char \<Rightarrow> string \<Rightarrow> string" where
  "replace_char a b s = map (\<lambda>c. if c = a then b else c) s"

text \<open>
  \<open>apply_aliases\<close>: for each alias in turn, the value of the field \<open>name\<close> moves to the
  field \<open>alias\<close>. A field that is not there raises \<open>KeyError\<close> (\<open>None\<close> below), and the
  handler puts the copy of the original \<open>_source\<close> back.
\<close>

fun alias_loop :: "(string \<times> string) list \<Rightarrow> field_alias list \<Rightarrow> (string \<times> string) list option" where
  "alias_loop source [] = Some source"
| "alias_loop source (a # aliases) =
     (case map_of source (alias_name a) of
        None \<Rightarrow> None
      | Some v \<Rightarrow>
          alias_loop (AList.delete (alias_name a) (AList.update (alias_alias a) v source)) aliases)"

definition apply_aliases :: "hit \<Rightarrow> field_alias list \<Rightarrow> hit io" where
  "apply_aliases document aliases =
     (case alias_loop (hit_source document) aliases of
        Some source \<Rightarrow> io_return (document\<lparr>hit_source := source\<rparr>)
      | None \<Rightarrow>
          io_bind (io_log WARNING ''An error occurred applying custom field aliases. {str(err)}'' [])
            (\<lambda>_. io_return document))"

fun apply_aliases_each :: "field_alias list \<Rightarrow> hit list \<Rightarrow> hit list io" where
  "apply_aliases_each aliases [] = io_return []"
| "apply_aliases_each aliases (document # documents) =
     io_bind (apply_aliases document aliases) (\<lambda>updated_document.
       io_bind (apply_aliases_each aliases documents) (\<lambda>updated_documents.
         io_return (updated_document # updated_documents)))"

definition replace_metadata_keys :: "config \<Rightarrow> hit list \<Rightarrow> hit list io" where
  "replace_metadata_keys cfg documents =
     (case ndx_custom_field_aliases cfg of
        None \<Rightarrow>
          io_bind (io_log WARNING
                     ''Missing alias for document field or wrong field name. {str(err)} not set.'' [])
            (\<lambda>_. io_return documents)
      | Some aliases \<Rightarrow>
          if length aliases = 0 then io_return documents
          else apply_aliases_each aliases documents)"

text \<open>
  The loop of \<open>format_context\<close> over \<open>enumerate(documents)\<close>; \<open>count\<close> is the position of the
  first document of the list.
\<close>

fun format_documents :: "nat \<Rightarrow> hit list \<Rightarrow> error + string" where
  "format_documents count [] = Inr []"
| "format_documents count (document # documents) =
     (case map_of (hit_source document) ''source'' of
        None \<Rightarrow> Inl KeyError
      | Some document_excerpt \<Rightarrow>
          (case format_documents (Suc count) documents of
             Inl e \<Rightarrow> Inl e
           | Inr context \<Rightarrow>
               Inr (''<document>'' @ ''<document_id>'' @ str_nat (count + 1) @ ''</document_id>''
                    @ ''<document_excerpt>'' @ document_excerpt @ ''</document_excerpt>''
                    @ ''</document>'' @ context)))"

text \<open>
  \<open>format_context\<close> returns the context; the documents it was given are changed in
  place by \<open>replace_metadata_keys\<close>, so the model returns them as well.
\<close>

definition format_context :: "config \<Rightarrow> hit list \<Rightarrow> (string \<times> hit list) io" where
  "format_context cfg documents =
     io_bind (replace_metadata_keys cfg documents) (\<lambda>updated.
       io_bind (io_lift (format_documents 0 updated)) (\<lambda>context.
         io_return
           (replace_char (CHR 0x22) (CHR 0x27)
              (replace_char (CHR 0x5C) CHR ''/''
                 (remove_non_printable (''<documents>'' @ context @ ''</documents>''))),
            updated)))"

section \<open>Chatbot\<close>

text \<open>
  The chatbot is built from a retriever class and a formatter class named in the
  configuration; both are parameters here.
\<close>

type_synonym retriever = "world \<Rightarrow> config \<Rightarrow> string \<Rightarrow> string list option \<Rightarrow> hit list io"

type_synonym formatter = "config \<Rightarrow> hit list \<Rightarrow> (string \<times> hit list) io"

record input_params =
  question :: string
  instructions :: string

definition intent_value :: "query_intent option \<Rightarrow> json" where
  "intent_value q =
     (case q of
        None \<Rightarrow> JNull
      | Some qi \<Rightarrow> JObj [(''intent'', intent qi), (''reformulated_query'', reformulated_query qi)])"

text \<open>
  \<open>generate_answer_text\<close>. Reading \<open>.reformulated_query\<close> of \<open>None\<close> raises
  \<open>AttributeError\<close> while the arguments of \<open>build_request_body\<close> are evaluated. The second
  component of the result is the document list after the formatter has run.
\<close>

definition generate_answer_text ::
  "formatter \<Rightarrow> world \<Rightarrow> config \<Rightarrow> string \<Rightarrow> hit list \<Rightarrow> string list \<Rightarrow> (json \<times> hit list) io" where
  "generate_answer_text format w cfg q documents instruction_values =
     io_bind (format cfg documents) (\<lambda>(context, formatted).
       io_bind (get_query_intent w q) (\<lambda>query_analysis_elements.
         io_bind (io_log WARNING ''WARNING WARNING'' []) (\<lambda>_.
           io_bind (io_log WARNING ''WHAT EXACTLY IS INSIDE context: {context}'' [JStr context]) (\<lambda>_.
             io_bind (io_log WARNING
                        ''WHAT EXACTLY IS INSIDE query_analysis_elements: {query_analysis_elements}''
                        [intent_value query_analysis_elements]) (\<lambda>_.
               case query_analysis_elements of
                 None \<Rightarrow> io_raise AttributeError
               | Some qi \<Rightarrow>
                   io_bind (call_build_request_body w (Some ''answer_question'')
                              [JStr context, reformulated_query qi] instruction_values) (\<lambda>request_body.
                     io_try
                       (io_bind (invoke_model w request_body) (\<lambda>answer.
                          io_return (answer, formatted)))
                       (\<lambda>e. if e = ParamValidationError then io_raise ValueError
                            else if e = ClientError
                            then io_bind (io_log ERROR ''Client error generating answer: %s'' [])
                                   (\<lambda>_. io_return (JObj [], formatted))
                            else io_raise e)))))))"

definition do_not_nswer :: "string \<Rightarrow> json" where
  "do_not_nswer q = JObj [(''content'', JArr [JObj [(''text'', JStr ''Cannot answer to this question.'')]])]"

definition answer_question ::
  "retriever \<Rightarrow> formatter \<Rightarrow> world \<Rightarrow> config \<Rightarrow> input_params \<Rightarrow> (json \<times> hit list) io" where
  "answer_question retrieve format w cfg params =
     io_bind (is_query_allowed w cfg (question params)) (\<lambda>allowed.
       if allowed
       then io_bind (retrieve w cfg (question params) (Some (ndx_custom_fields cfg)))
              (\<lambda>retrieved_documents.
                generate_answer_text format w cfg (question params) (rev retrieved_documents)
                  [instructions params])
       else io_return (do_not_nswer (question params), []))"

section \<open>Concrete environments\<close>

text \<open>
  The environments the theorems below are exercised in. In \<open>silent_world\<close> every external
  service fails and no text parses; a scenario overrides the services it uses.
  \<open>chunk_hit\<close> is a hit that carries its text under both field names the code reads.
\<close>

definition silent_world :: world where
  "silent_world =
     \<lparr>json_loads = (\<lambda>_. None),
      build_request_body = (\<lambda>_ _ _. Inl OtherError),
      bedrock_invoke = (\<lambda>_ _. Inl OtherError),
      get_embeddings = (\<lambda>_. Inl OtherError),
      opensearch_search = (\<lambda>_. Inl OtherError),
      rerank_invoke = (\<lambda>_ _. Inl OtherError)\<rparr>"

definition chunk_hit :: "string \<Rightarrow> rat \<Rightarrow> string \<Rightarrow> hit" where
  "chunk_hit i s chunk =
     \<lparr>hit_id = Some i, hit_score = s,
      hit_source = [(''AMAZON_BEDROCK_TEXT_CHUNK'', chunk), (''source'', chunk)]\<rparr>"

definition scored :: "int \<Rightarrow> rat \<Rightarrow> rerank_result" where
  "scored i s = \<lparr>result_index = i, relevance_score = Some s\<rparr>"

definition base_config :: config where
  "base_config =
     \<lparr>ai = None, rerank_model_id = None, vector_field_name = ''vector'',
      ndx_custom_fields = [], ndx_custom_field_aliases = Some []\<rparr>"

text \<open>
  A configuration with the guardrail \<open>g1\<close>, and a world whose moderation response is the
  text \<open>r\<close>, parsed as the dictionary with the given action.
\<close>

definition guarded_config :: config where
  "guarded_config = base_config\<lparr>ai := Some [(''bedrock_guardrail_id'', ''g1'')]\<rparr>"

definition guardrail_world :: "string \<Rightarrow> world" where
  "guardrail_world action =
     silent_world
       \<lparr>json_loads := (\<lambda>s. if s = ''r'' then Some (JObj [(''amazon-bedrock-guardrailAction'', JStr action)])
                           else None),
        bedrock_invoke := (\<lambda>body guardrail. if guardrail = Some (''g1'', ''DRAFT'') then Inr ''r''
                                                else Inl OtherError)\<rparr>"

text \<open>
  A world for the scenarios that go through the language model. A request body is the
  name of its template; the invocation of the template \<open>failing_template\<close> raises \<open>err\<close>,
  every other invocation returns the text \<open>a\<close>; \<open>parses\<close> lists the texts that parse and
  their values. The embedding is a one-element vector; the lexical search for the
  keywords \<open>eu, position\<close> returns the hits B and C, every other search the hits A and B.
\<close>

definition scripted_world :: "string \<Rightarrow> error \<Rightarrow> (string \<times> json) list \<Rightarrow> world" where
  "scripted_world failing_template err parses =
     \<lparr>json_loads = map_of parses,
      build_request_body = (\<lambda>template_id vals instruction_values. Inr (map_option JStr template_id)),
      bedrock_invoke = (\<lambda>body guardrail. if body = Some (JStr failing_template) then Inl err
                                              else Inr ''a''),
      get_embeddings = (\<lambda>_. Inr [1]),
      opensearch_search = (\<lambda>search_body.
         if search_body = JObj (get_bm25_search_body 5 (JStr ''eu, position''))
         then Inr [chunk_hit ''B'' 5.0 ''b'', chunk_hit ''C'' 4.0 ''c'']
         else Inr [chunk_hit ''A'' 0.9 ''a'', chunk_hit ''B'' 0.8 ''b'']),
      rerank_invoke = (\<lambda>_ _. Inl OtherError)\<rparr>"

text \<open>
  The answer \<open>a\<close> holds one content block whose text \<open>k\<close> parses to an analysis of the
  query; in \<open>malformed_answers\<close> the text of the block does not parse.
\<close>

definition parsed_answers :: "(string \<times> json) list" where
  "parsed_answers =
     [(''a'', JObj [(''content'', JArr [JObj [(''text'', JStr ''k'')]])]),
      (''k'', JObj [(''intent'', JStr ''ask''), (''reformulated_query'', JStr ''rq''),
                   (''search_elements'', JArr [JStr ''eu'', JStr ''position''])])]"

definition malformed_answers :: "(string \<times> json) list" where
  "malformed_answers =
     [(''a'', JObj [(''content'', JArr [JObj [(''text'', JStr ''not json'')]])])]"

definition translating_config :: config where
  "translating_config = base_config\<lparr>ai := Some [(''prompt_translate_template_id'', ''translate'')]\<rparr>"



section \<open>Properties of the merge step\<close>

lemma distinct_loop_acc: "distinct_loop xs seen acc = acc @ distinct_loop xs seen []"
proof (induction xs arbitrary: seen acc)
  case Nil
  then show ?case by simp
next
  case (Cons d xs)
  show ?case
    using Cons.IH [of "insert (hit_id d) seen" "acc @ [d]"]
          Cons.IH [of "insert (hit_id d) seen" "[d]"] Cons.IH [of seen acc]
    by simp
qed

lemma distinct_loop_Cons:
  "distinct_loop (d # xs) seen [] =
     (if hit_id d \<in> seen then distinct_loop xs seen []
      else d # distinct_loop xs (insert (hit_id d) seen) [])"
  using distinct_loop_acc [of xs "insert (hit_id d) seen" "[d]"] by simp

lemma distinct_loop_ids:
  "set (map hit_id (distinct_loop xs seen [])) = set (map hit_id xs) - seen"
proof (induction xs arbitrary: seen)
  case Nil
  then show ?case by simp
next
  case (Cons d xs)
  show ?case
    using Cons.IH [of "insert (hit_id d) seen"] Cons.IH [of seen]
    by (auto simp: distinct_loop_Cons simp del: distinct_loop.simps)
qed

lemma distinct_loop_distinct: "distinct (map hit_id (distinct_loop xs seen []))"
proof (induction xs arbitrary: seen)
  case Nil
  then show ?case by simp
next
  case (Cons d xs)
  show ?case
    using Cons.IH [of "insert (hit_id d) seen"] Cons.IH [of seen]
          distinct_loop_ids [of xs "insert (hit_id d) seen"]
    by (auto simp: distinct_loop_Cons simp del: distinct_loop.simps)
qed

lemma distinct_loop_subseq: "subseq (distinct_loop xs seen []) xs"
proof (induction xs arbitrary: seen)
  case Nil
  then show ?case by simp
next
  case (Cons d xs)
  show ?case
    using Cons.IH [of "insert (hit_id d) seen"] Cons.IH [of seen]
    by (auto simp: distinct_loop_Cons simp del: distinct_loop.simps)
qed

lemma distinct_loop_unseen:
  assumes "x \<in> set (distinct_loop xs seen [])"
  shows "hit_id x \<notin> seen"
proof -
  from assms have "hit_id x \<in> set (map hit_id (distinct_loop xs seen []))" by simp
  then show ?thesis using distinct_loop_ids [of xs seen] by simp
qed

lemma distinct_loop_first:
  "x \<in> set (distinct_loop xs seen []) \<Longrightarrow> find (\<lambda>y. hit_id y = hit_id x) xs = Some x"
proof (induction xs arbitrary: seen)
  case Nil
  then show ?case by simp
next
  case (Cons d xs)
  show ?case
  proof (cases "hit_id d \<in> seen")
    case True
    with Cons.prems have mem: "x \<in> set (distinct_loop xs seen [])"
      by (simp add: distinct_loop_Cons del: distinct_loop.simps)
    from distinct_loop_unseen [OF mem] True have "hit_id d \<noteq> hit_id x" by auto
    then show ?thesis using Cons.IH [OF mem] by simp
  next
    case False
    with Cons.prems
    consider "x = d" | "x \<in> set (distinct_loop xs (insert (hit_id d) seen) [])"
      by (auto simp: distinct_loop_Cons simp del: distinct_loop.simps)
    then show ?thesis
    proof cases
      case 1
      then show ?thesis by simp
    next
      case 2
      from distinct_loop_unseen [OF 2] have "hit_id d \<noteq> hit_id x" by auto
      then show ?thesis using Cons.IH [OF 2] by simp
    qed
  qed
qed

lemma distinct_loop_append:
  "distinct_loop (xs @ ys) seen [] =
     distinct_loop xs seen [] @ distinct_loop ys (seen \<union> set (map hit_id xs)) []"
proof (induction xs arbitrary: seen)
  case Nil
  then show ?case by simp
next
  case (Cons d xs)
  show ?case
  proof (cases "hit_id d \<in> seen")
    case True
    then have "seen \<union> set (map hit_id (d # xs)) = seen \<union> set (map hit_id xs)" by auto
    then show ?thesis
      using True Cons.IH [of seen]
      by (simp add: distinct_loop_Cons del: distinct_loop.simps)
  next
    case False
    have "seen \<union> set (map hit_id (d # xs)) = insert (hit_id d) seen \<union> set (map hit_id xs)"
      by auto
    then show ?thesis
      using False Cons.IH [of "insert (hit_id d) seen"]
      by (simp add: distinct_loop_Cons del: distinct_loop.simps)
  qed
qed

lemma distinct_loop_filter:
  "distinct_loop xs (seen \<union> s) [] = distinct_loop (filter (\<lambda>d. hit_id d \<notin> s) xs) seen []"
proof (induction xs arbitrary: seen)
  case Nil
  then show ?case by simp
next
  case (Cons d xs)
  show ?case
    using Cons.IH [of seen] Cons.IH [of "insert (hit_id d) seen"]
    by (auto simp: distinct_loop_Cons simp del: distinct_loop.simps)
qed

text \<open>
  C1. The merge step concatenates the vector hits before the lexical hits and keeps the
  first hit of every identity: the identities of the output are pairwise distinct and
  are exactly those of the input, the output is a subsequence of the concatenation (the
  order of the surviving hits is kept), every hit of the output is the first hit of its
  identity in the concatenation, and the output is the deduplicated vector hits followed
  by the deduplicated lexical hits whose identity no vector hit has.
\<close>

theorem merge_hits_first_occurrence:
  "distinct (map hit_id (merge_hits results_knn results_bm25))
   \<and> set (map hit_id (merge_hits results_knn results_bm25))
       = set (map hit_id (results_knn @ results_bm25))
   \<and> subseq (merge_hits results_knn results_bm25) (results_knn @ results_bm25)
   \<and> (\<forall>x \<in> set (merge_hits results_knn results_bm25).
         find (\<lambda>y. hit_id y = hit_id x) (results_knn @ results_bm25) = Some x)
   \<and> merge_hits results_knn results_bm25
       = get_distinct_values results_knn
         @ get_distinct_values
             (filter (\<lambda>d. hit_id d \<notin> set (map hit_id results_knn)) results_bm25)"
proof -
  let ?all = "results_knn @ results_bm25"
  have d: "distinct (map hit_id (distinct_loop ?all {} []))"
    by (rule distinct_loop_distinct)
  have s: "set (map hit_id (distinct_loop ?all {} [])) = set (map hit_id ?all)"
    using distinct_loop_ids [of ?all "{}"] by simp
  have q: "subseq (distinct_loop ?all {} []) ?all"
    by (rule distinct_loop_subseq)
  have f: "\<forall>x \<in> set (distinct_loop ?all {} []).
             find (\<lambda>y. hit_id y = hit_id x) ?all = Some x"
    using distinct_loop_first by blast
  have "distinct_loop ?all {} []
          = distinct_loop results_knn {} []
            @ distinct_loop results_bm25 ({} \<union> set (map hit_id results_knn)) []"
    by (simp add: distinct_loop_append)
  also have "distinct_loop results_bm25 ({} \<union> set (map hit_id results_knn)) []
          = distinct_loop (filter (\<lambda>d. hit_id d \<notin> set (map hit_id results_knn)) results_bm25) {} []"
    by (rule distinct_loop_filter)
  finally have a: "distinct_loop ?all {} []
          = distinct_loop results_knn {} []
            @ distinct_loop (filter (\<lambda>d. hit_id d \<notin> set (map hit_id results_knn)) results_bm25) {} []" .
  show ?thesis
    unfolding merge_hits_def get_distinct_values_def
    using d s q f a by blast
qed

text \<open>
  Scenario A of the specification: vector hits A, B, C with scores 0.9, 0.8, 0.7 and
  lexical hits C, D with scores 5.0, 4.0 merge to A, B, C, D, the C of the vector search.
\<close>

theorem merge_hits_first_occurrence_witness:
  "merge_hits
     [\<lparr>hit_id = Some ''A'', hit_score = 0.9, hit_source = []\<rparr>,
      \<lparr>hit_id = Some ''B'', hit_score = 0.8, hit_source = []\<rparr>,
      \<lparr>hit_id = Some ''C'', hit_score = 0.7, hit_source = []\<rparr>]
     [\<lparr>hit_id = Some ''C'', hit_score = 5.0, hit_source = []\<rparr>,
      \<lparr>hit_id = Some ''D'', hit_score = 4.0, hit_source = []\<rparr>]
   = [\<lparr>hit_id = Some ''A'', hit_score = 0.9, hit_source = []\<rparr>,
      \<lparr>hit_id = Some ''B'', hit_score = 0.8, hit_source = []\<rparr>,
      \<lparr>hit_id = Some ''C'', hit_score = 0.7, hit_source = []\<rparr>,
      \<lparr>hit_id = Some ''D'', hit_score = 4.0, hit_source = []\<rparr>]
   \<and> distinct (map hit_id (merge_hits
     [\<lparr>hit_id = Some ''A'', hit_score = 0.9, hit_source = []\<rparr>,
      \<lparr>hit_id = Some ''B'', hit_score = 0.8, hit_source = []\<rparr>,
      \<lparr>hit_id = Some ''C'', hit_score = 0.7, hit_source = []\<rparr>]
     [\<lparr>hit_id = Some ''C'', hit_score = 5.0, hit_source = []\<rparr>,
      \<lparr>hit_id = Some ''D'', hit_score = 4.0, hit_source = []\<rparr>]))"
  (is "?merged = ?expected \<and> ?d")
proof -
  have e: "?merged = ?expected"
    by (simp add: merge_hits_def get_distinct_values_def)
  have d: "?d"
    by (rule merge_hits_first_occurrence [THEN conjunct1])
  from e d show ?thesis by (rule conjI)
qed

section \<open>Laws of sequencing\<close>

lemma io_bind_return [simp]: "io_bind (io_return x) f = f x"
  by (simp add: io_bind_def io_return_def)

lemma io_bind_raise [simp]: "io_bind (io_raise e) f = io_raise e"
  by (simp add: io_bind_def io_raise_def)

lemma io_bind_lift_Inr [simp]: "io_bind (io_lift (Inr x)) f = f x"
  by (simp add: io_bind_def io_lift_def)

lemma io_bind_lift_Inl [simp]: "io_bind (io_lift (Inl e)) f = io_raise e"
  by (simp add: io_bind_def io_lift_def io_raise_def)

lemma io_bind_call_Inr [simp]: "io_bind (io_call ev (Inr x)) f = (fst (f x), ev # snd (f x))"
  by (simp add: io_bind_def io_call_def)

lemma io_bind_call_Inl [simp]: "io_bind (io_call ev (Inl e)) f = (Inl e, [ev])"
  by (simp add: io_bind_def io_call_def)

lemma io_bind_log [simp]:
  "io_bind (io_log l msg args) f = (fst (f ()), LogRecord l msg args # snd (f ()))"
  by (simp add: io_bind_def io_log_def)

lemma io_bind_pair_Inr [simp]: "io_bind (Inr x, t) f = (fst (f x), t @ snd (f x))"
  by (simp add: io_bind_def)

lemma io_bind_pair_Inl [simp]: "io_bind (Inl e, t) f = (Inl e, t)"
  by (simp add: io_bind_def)

lemma io_try_pair_Inr [simp]: "io_try (Inr x, t) h = (Inr x, t)"
  by (simp add: io_try_def)

lemma io_try_pair_Inl [simp]: "io_try (Inl e, t) h = (fst (h e), t @ snd (h e))"
  by (simp add: io_try_def)

lemma fst_io_return [simp]: "fst (io_return x) = Inr x" and snd_io_return [simp]: "snd (io_return x) = []"
  by (simp_all add: io_return_def)

lemma fst_io_raise [simp]: "fst (io_raise e) = Inl e" and snd_io_raise [simp]: "snd (io_raise e) = []"
  by (simp_all add: io_raise_def)

lemma fst_io_lift [simp]: "fst (io_lift r) = r" and snd_io_lift [simp]: "snd (io_lift r) = []"
  by (simp_all add: io_lift_def)

lemma fst_io_bind_Inr: "fst m = Inr x \<Longrightarrow> fst (io_bind m f) = fst (f x)"
  by (simp add: io_bind_def)

lemma snd_io_bind_Inr: "fst m = Inr x \<Longrightarrow> snd (io_bind m f) = snd m @ snd (f x)"
  by (simp add: io_bind_def)

lemma io_bind_Inl: "fst m = Inl e \<Longrightarrow> io_bind m f = (Inl e, snd m)"
  by (simp add: io_bind_def)

section \<open>Properties of rounding to a double\<close>

lemma round_half_even_error: "\<bar>of_int (round_half_even x) - x\<bar> \<le> 1 / 2"
  unfolding round_half_even_def
  by (auto simp: abs_if not_less) linarith+

lemma round_half_even_floor:
  "\<lfloor>x\<rfloor> \<le> round_half_even x \<and> round_half_even x \<le> \<lfloor>x\<rfloor> + 1"
  by (simp add: round_half_even_def)

lemma round_half_even_mono: "x \<le> y \<Longrightarrow> round_half_even x \<le> round_half_even y"
proof -
  assume le: "x \<le> y"
  then have "\<lfloor>x\<rfloor> \<le> \<lfloor>y\<rfloor>" by (rule floor_mono)
  then consider "\<lfloor>x\<rfloor> = \<lfloor>y\<rfloor>" | "\<lfloor>x\<rfloor> + 1 \<le> \<lfloor>y\<rfloor>" by linarith
  then show ?thesis
  proof cases
    case 1
    with le show ?thesis by (auto simp: round_half_even_def)
  next
    case 2
    with round_half_even_floor [of x] round_half_even_floor [of y] show ?thesis by linarith
  qed
qed

lemma round_half_even_int [simp]: "round_half_even (of_int n) = n"
  by (simp add: round_half_even_def)

lemma floor_log2_lower: "0 < r \<Longrightarrow> 2 powi floor_log2 r \<le> r"
proof (cases "1 \<le> r")
  case True
  then have n: "0 < \<lfloor>r\<rfloor>" by simp
  from bitlen_bounds [OF n] have "2 ^ nat (bitlen \<lfloor>r\<rfloor> - 1) \<le> \<lfloor>r\<rfloor>" by simp
  then have "(of_int (2 ^ nat (bitlen \<lfloor>r\<rfloor> - 1)) :: rat) \<le> of_int \<lfloor>r\<rfloor>"
    by (simp only: of_int_le_iff)
  also have "\<dots> \<le> r" by simp
  finally have "(2 :: rat) ^ nat (bitlen \<lfloor>r\<rfloor> - 1) \<le> r" by simp
  moreover from n have "1 \<le> bitlen \<lfloor>r\<rfloor>"
    using bitlen_eq_zero_iff [of "\<lfloor>r\<rfloor>"] bitlen_nonneg [of "\<lfloor>r\<rfloor>"] by linarith
  ultimately show ?thesis using True
    by (simp add: floor_log2_def power_int_def)
next
  case False
  assume pos: "0 < r"
  let ?j = "\<lceil>1 / r\<rceil> - 1"
  from False pos have "1 < 1 / r" by (simp add: field_simps)
  then have j: "0 < ?j" by (simp add: less_ceiling_iff)
  from bitlen_bounds [OF j] have "?j < 2 ^ nat (bitlen ?j)" by simp
  then have c: "\<lceil>1 / r\<rceil> \<le> 2 ^ nat (bitlen ?j)" by linarith
  have "1 / r \<le> of_int \<lceil>1 / r\<rceil>" by (rule le_of_int_ceiling)
  also have "\<dots> \<le> of_int (2 ^ nat (bitlen ?j))"
    using c by (simp only: of_int_le_iff)
  also have "\<dots> = 2 ^ nat (bitlen ?j)" by simp
  finally have "1 / r \<le> 2 ^ nat (bitlen ?j)" .
  with pos have "1 / 2 ^ nat (bitlen ?j) \<le> r"
    by (simp add: field_simps)
  moreover from j have "1 \<le> bitlen ?j"
    using bitlen_eq_zero_iff [of ?j] bitlen_nonneg [of ?j] by linarith
  ultimately show ?thesis using False
    by (simp add: floor_log2_def power_int_def inverse_eq_divide power_one_over)
qed

lemma floor_log2_upper: "0 < r \<Longrightarrow> r < 2 powi (floor_log2 r + 1)"
proof (cases "1 \<le> r")
  case True
  then have n: "0 < \<lfloor>r\<rfloor>" by simp
  from bitlen_bounds [OF n] have "\<lfloor>r\<rfloor> + 1 \<le> 2 ^ nat (bitlen \<lfloor>r\<rfloor>)" by simp
  then have "(of_int (\<lfloor>r\<rfloor> + 1) :: rat) \<le> of_int (2 ^ nat (bitlen \<lfloor>r\<rfloor>))"
    by (simp only: of_int_le_iff)
  moreover have "r < of_int (\<lfloor>r\<rfloor> + 1)" by simp linarith
  ultimately have "r < (2 :: rat) ^ nat (bitlen \<lfloor>r\<rfloor>)" by simp
  moreover have "0 \<le> bitlen \<lfloor>r\<rfloor>" by (rule bitlen_nonneg)
  ultimately show ?thesis using True
    by (simp add: floor_log2_def power_int_def)
next
  case False
  assume pos: "0 < r"
  let ?j = "\<lceil>1 / r\<rceil> - 1"
  from False pos have "1 < 1 / r" by (simp add: field_simps)
  then have j: "0 < ?j" by (simp add: less_ceiling_iff)
  from j have k: "1 \<le> bitlen ?j"
    using bitlen_eq_zero_iff [of ?j] bitlen_nonneg [of ?j] by linarith
  from bitlen_bounds [OF j] have "2 ^ nat (bitlen ?j - 1) \<le> ?j" by simp
  then have "(of_int (2 ^ nat (bitlen ?j - 1)) :: rat) \<le> of_int ?j"
    by (simp only: of_int_le_iff)
  moreover have "of_int ?j < 1 / r"
    using ceiling_correct [of "1 / r"] by simp
  ultimately have "(2 :: rat) ^ nat (bitlen ?j - 1) < 1 / r" by simp
  with pos have "r < 1 / 2 ^ nat (bitlen ?j - 1)"
    by (simp add: field_simps)
  moreover from k have "nat (bitlen ?j - 1) = nat (bitlen ?j) - 1" by simp
  ultimately show ?thesis using False k
    by (simp add: floor_log2_def power_int_def inverse_eq_divide power_one_over nat_diff_distrib)
qed

lemma floor_log2_mono:
  assumes "0 < r" "r \<le> s"
  shows "floor_log2 r \<le> floor_log2 s"
proof (rule ccontr)
  assume "\<not> floor_log2 r \<le> floor_log2 s"
  then have "floor_log2 s + 1 \<le> floor_log2 r" by simp
  then have "(2 :: rat) powi (floor_log2 s + 1) \<le> 2 powi floor_log2 r"
    by (intro power_int_increasing) simp_all
  also have "\<dots> \<le> r" using assms(1) by (rule floor_log2_lower)
  also have "\<dots> \<le> s" by (rule assms(2))
  finally show False using floor_log2_upper [of s] assms by simp
qed


lemma double_exponent_cases:
  "double_exponent r = floor_log2 \<bar>r\<bar> - 52 \<or> double_exponent r = - 1074"
  by (auto simp: double_exponent_def max_def)

lemma double_exponent_ge: "floor_log2 \<bar>r\<bar> - 52 \<le> double_exponent r"
  by (simp add: double_exponent_def)

lemma double_exponent_mono:
  assumes "0 < r" "r \<le> s"
  shows "double_exponent r \<le> double_exponent s"
  using floor_log2_mono [of r s] assms by (simp add: double_exponent_def)

lemma double_of_pos:
  "0 < r \<Longrightarrow>
   double_of r = of_int (round_half_even (r / 2 powi double_exponent r)) * 2 powi double_exponent r"
  by (simp add: double_of_def double_exponent_def)

lemma double_of_minus: "double_of (- r) = - double_of r"
  by (simp add: double_of_def double_exponent_def)

text \<open>The scaled value is below \<open>2 ^ 53\<close>, and at least \<open>2 ^ 52\<close> for a normal double.\<close>

lemma scaled_upper:
  assumes "0 < r"
  shows "r / 2 powi double_exponent r < 2 ^ 53"
proof -
  have "r < 2 powi (floor_log2 r + 1)" using assms by (rule floor_log2_upper)
  also have "\<dots> = 2 powi (floor_log2 r - 52) * 2 ^ 53"
    by (simp add: power_int_diff power_int_add)
  also have "\<dots> \<le> 2 powi double_exponent r * 2 ^ 53"
    using double_exponent_ge [of r] assms
    by (intro mult_right_mono power_int_increasing) simp_all
  finally show ?thesis by (simp add: field_simps)
qed

lemma scaled_lower:
  assumes "0 < r" "double_exponent r = floor_log2 r - 52"
  shows "2 ^ 52 \<le> r / 2 powi double_exponent r"
proof -
  have "(2 :: rat) powi double_exponent r * 2 ^ 52 = 2 powi floor_log2 r"
    using assms(2) by (simp add: power_int_diff)
  also have "\<dots> \<le> r" using assms(1) by (rule floor_log2_lower)
  finally show ?thesis by (simp add: field_simps)
qed

lemma double_of_mono_pos:
  assumes "0 < r" "r \<le> s"
  shows "double_of r \<le> double_of s"
proof -
  let ?e = "double_exponent r" and ?f = "double_exponent s"
  let ?m = "round_half_even (r / 2 powi ?e)" and ?n = "round_half_even (s / 2 powi ?f)"
  from assms have s: "0 < s" by simp
  have le: "?e \<le> ?f" using assms by (rule double_exponent_mono)
  show ?thesis
  proof (cases "?e = ?f")
    case True
    have "r / 2 powi ?e \<le> s / 2 powi ?e"
      using assms(2) by (simp add: divide_right_mono)
    then have "?m \<le> round_half_even (s / 2 powi ?e)" by (rule round_half_even_mono)
    then have "(of_int ?m :: rat) \<le> of_int (round_half_even (s / 2 powi ?e))"
      by (simp only: of_int_le_iff)
    then have "of_int ?m * 2 powi ?e \<le> of_int (round_half_even (s / 2 powi ?e)) * (2 :: rat) powi ?e"
      by (intro mult_right_mono) simp_all
    with True show ?thesis by (simp add: double_of_pos assms(1) s)
  next
    case False
    with le have lt: "?e + 1 \<le> ?f" by simp
    then have "- 1074 < ?f" by (simp add: double_exponent_def)
    with double_exponent_cases [of s] s have normal: "?f = floor_log2 s - 52" by simp
    have "r / 2 powi ?e \<le> of_int (2 ^ 53)"
      using scaled_upper [OF assms(1)] by simp
    then have "?m \<le> round_half_even (of_int (2 ^ 53))" by (rule round_half_even_mono)
    then have "?m \<le> 2 ^ 53" by (simp only: round_half_even_int)
    then have "(of_int ?m :: rat) \<le> of_int (2 ^ 53)" by (simp only: of_int_le_iff)
    then have "of_int ?m * 2 powi ?e \<le> of_int (2 ^ 53) * (2 :: rat) powi ?e"
      by (intro mult_right_mono) simp_all
    also have "\<dots> = 2 ^ 52 * 2 powi (?e + 1)"
      by (simp add: power_int_add)
    also have "\<dots> \<le> 2 ^ 52 * 2 powi ?f"
      using lt by (intro mult_left_mono power_int_increasing) simp_all
    also have "\<dots> \<le> of_int ?n * 2 powi ?f"
    proof -
      have "of_int (2 ^ 52) \<le> s / 2 powi ?f"
        using scaled_lower [OF s normal] by simp
      then have "round_half_even (of_int (2 ^ 52)) \<le> ?n" by (rule round_half_even_mono)
      then have "2 ^ 52 \<le> ?n" by (simp only: round_half_even_int)
      then have "(of_int (2 ^ 52) :: rat) \<le> of_int ?n" by (simp only: of_int_le_iff)
      then show ?thesis by (intro mult_right_mono) simp_all
    qed
    finally show ?thesis by (simp add: double_of_pos assms(1) s)
  qed
qed

lemma double_of_nonneg: "0 \<le> r \<Longrightarrow> 0 \<le> double_of r"
proof (cases "r = 0")
  case True
  then show ?thesis by (simp add: double_of_def)
next
  case False
  assume "0 \<le> r"
  with False have pos: "0 < r" by simp
  then have "0 \<le> r / 2 powi double_exponent r" by simp
  then have "round_half_even (of_int 0) \<le> round_half_even (r / 2 powi double_exponent r)"
    by (intro round_half_even_mono) simp
  then have "0 \<le> round_half_even (r / 2 powi double_exponent r)"
    by (simp only: round_half_even_int)
  then show ?thesis by (simp add: double_of_pos pos)
qed

lemma double_of_mono:
  assumes "r \<le> s"
  shows "double_of r \<le> double_of s"
proof -
  consider "0 < r" | "r \<le> 0" "0 \<le> s" | "s < 0" using assms by linarith
  then show ?thesis
  proof cases
    case 1
    then show ?thesis using assms by (rule double_of_mono_pos)
  next
    case 2
    from 2(1) have "0 \<le> double_of (- r)" by (intro double_of_nonneg) simp
    then have "double_of r \<le> 0" by (simp add: double_of_minus)
    also have "0 \<le> double_of s" using 2(2) by (rule double_of_nonneg)
    finally show ?thesis .
  next
    case 3
    then have "0 < - s" "- s \<le> - r" using assms by simp_all
    then have "double_of (- s) \<le> double_of (- r)" by (rule double_of_mono_pos)
    then show ?thesis by (simp add: double_of_minus)
  qed
qed

lemma double_of_error: "\<bar>double_of r - r\<bar> \<le> \<bar>r\<bar> / 2 ^ 53 + 1 / 2 ^ 1075"
proof -
  have pos: "\<bar>double_of r - r\<bar> \<le> r / 2 ^ 53 + 1 / 2 ^ 1075" if r: "0 < r" for r
  proof -
    let ?e = "double_exponent r"
    let ?x = "r / 2 powi ?e"
    have "\<bar>double_of r - r\<bar> = \<bar>of_int (round_half_even ?x) - ?x\<bar> * 2 powi ?e"
    proof -
      have "double_of r - r = (of_int (round_half_even ?x) - ?x) * 2 powi ?e"
        by (simp add: double_of_pos r algebra_simps)
      then show ?thesis by (simp add: abs_mult)
    qed
    also have "\<dots> \<le> 1 / 2 * 2 powi ?e"
      using round_half_even_error [of ?x] by (intro mult_right_mono) simp_all
    also have "\<dots> \<le> r / 2 ^ 53 + 1 / 2 ^ 1075"
    proof -
      from double_exponent_cases [of r] r
      consider "?e = floor_log2 r - 52" | "?e = - 1074" by auto
      then show ?thesis
      proof cases
        case 1
        from scaled_lower [OF r 1] have "2 ^ 52 * 2 powi ?e \<le> r"
          by (simp add: field_simps)
        then have "1 / 2 * 2 powi ?e \<le> r / 2 ^ 53" by simp
        then show ?thesis by simp
      next
        case 2
        then have "1 / 2 * 2 powi ?e = (1 :: rat) / 2 ^ 1075"
          by (simp add: power_int_def inverse_eq_divide power_one_over)
        with r show ?thesis by simp
      qed
    qed
    finally show ?thesis .
  qed
  consider "r = 0" | "0 < r" | "r < 0" by linarith
  then show ?thesis
  proof cases
    case 1
    then show ?thesis by (simp add: double_of_def)
  next
    case 2
    with pos [OF 2] show ?thesis by simp
  next
    case 3
    then have "0 < - r" by simp
    from pos [OF this] 3 show ?thesis by (simp add: double_of_minus abs_minus_commute)
  qed
qed

section \<open>Properties of the reranker\<close>

lemma double_of_zero [simp]: "double_of 0 = 0"
  by (simp add: double_of_def)

lemma double_of_040: "double_of (2 / 5) = 3602879701896397 / 9007199254740992"
  by code_simp

lemma threshold_of_mono: "t \<le> t' \<Longrightarrow> threshold_of t \<le> threshold_of t'"
  unfolding threshold_of_def
  by (intro double_of_mono mult_right_mono) (simp_all add: double_of_040)

lemma threshold_of_error: "\<bar>threshold_of t - 0.4 * t\<bar> \<le> \<bar>t\<bar> / 2 ^ 53 + 1 / 2 ^ 1075"
proof -
  let ?c = "3602879701896397 / 9007199254740992 :: rat"
  have "\<bar>threshold_of t - 0.4 * t\<bar> \<le> \<bar>double_of (t * ?c) - t * ?c\<bar> + \<bar>t * ?c - 0.4 * t\<bar>"
    by (simp add: threshold_of_def double_of_040)
  also have "\<dots> \<le> (\<bar>t * ?c\<bar> / 2 ^ 53 + 1 / 2 ^ 1075) + \<bar>t * ?c - 0.4 * t\<bar>"
    using double_of_error [of "t * ?c"] by simp
  also have "\<bar>t * ?c\<bar> = \<bar>t\<bar> * ?c" by (simp add: abs_mult)
  also have "\<bar>t * ?c - 0.4 * t\<bar> = \<bar>t\<bar> * (?c - 0.4)"
  proof -
    have "t * ?c - 0.4 * t = t * (?c - 0.4)" by (simp add: algebra_simps)
    then show ?thesis by (simp add: abs_mult)
  qed
  also have "(\<bar>t\<bar> * ?c / 2 ^ 53 + 1 / 2 ^ 1075) + \<bar>t\<bar> * (?c - 0.4)
               = \<bar>t\<bar> * (?c / 2 ^ 53 + (?c - 0.4)) + 1 / 2 ^ 1075"
    by (simp add: algebra_simps)
  also have "\<dots> \<le> \<bar>t\<bar> * (1 / 2 ^ 53) + 1 / 2 ^ 1075"
    by (intro add_right_mono mult_left_mono) simp_all
  finally show ?thesis by simp
qed

lemma py_nth_mem: "py_nth xs i = Inr x \<Longrightarrow> x \<in> set xs"
  by (auto simp: py_nth_def split: if_splits)

lemma py_nth_position:
  "py_nth xs i = Inr x \<Longrightarrow>
   0 \<le> position (length xs) i \<and> position (length xs) i < int (length xs)"
  by (simp add: py_nth_def split: if_splits)

lemma py_nth_in_range: "0 \<le> i \<Longrightarrow> i < int (length xs) \<Longrightarrow> py_nth xs i = Inr (xs ! nat i)"
  by (simp add: py_nth_def position_def)

lemma pick_results_mem: "pick_results results is = Inr out \<Longrightarrow> set out \<subseteq> set results"
proof (induction "is" arbitrary: out)
  case Nil
  then show ?case by simp
next
  case (Cons i "is")
  then show ?case
    by (auto split: sum.splits dest: py_nth_mem)
qed

lemma pick_results_length: "pick_results results is = Inr out \<Longrightarrow> length out = length is"
  by (induction "is" arbitrary: out) (auto split: sum.splits)

lemma pick_results_position:
  "pick_results results is = Inr out \<Longrightarrow> i \<in> set is \<Longrightarrow>
   0 \<le> position (length results) i \<and> position (length results) i < int (length results)"
  by (induction "is" arbitrary: out) (auto split: sum.splits dest: py_nth_position)

lemma pick_results_in_range:
  "list_all (\<lambda>i. 0 \<le> i \<and> i < int (length results)) is \<Longrightarrow>
   pick_results results is = Inr (map (\<lambda>i. results ! nat i) is)"
  by (induction "is") (simp_all add: py_nth_in_range)

lemma matching_indices_filter:
  "list_all (\<lambda>r. relevance_score r \<noteq> None) response \<Longrightarrow>
   matching_indices threshold response
     = Inr (map result_index
              (filter (\<lambda>r. threshold < double_of (the (relevance_score r))) response))"
  by (induction response) auto

lemma matching_indices_props:
  "matching_indices threshold response = Inr is \<Longrightarrow>
   set is \<subseteq> result_index ` set response
   \<and> (distinct (map f (map result_index response)) \<longrightarrow> distinct (map f is))"
proof (induction response arbitrary: "is")
  case Nil
  then show ?case by simp
next
  case (Cons r response)
  from Cons.prems obtain s js where s: "relevance_score r = Some s"
    and js: "matching_indices threshold response = Inr js"
    and "is": "is = (if double_of s > threshold then result_index r # js else js)"
    by (auto split: option.splits sum.splits)
  from Cons.IH [OF js] "is" show ?case by auto
qed

lemma distinct_nonneg_bounded:
  fixes "is" :: "int list"
  assumes "distinct is" and "\<forall>i \<in> set is. 0 \<le> i \<and> i < int n"
  shows "length is \<le> n"
proof -
  have "set is \<subseteq> int ` {..<n}"
  proof
    fix i assume "i \<in> set is"
    with assms(2) have "0 \<le> i" "i < int n" by auto
    then have "nat i \<in> {..<n}" "i = int (nat i)" by auto
    then show "i \<in> int ` {..<n}" by blast
  qed
  then have "card (set is) \<le> card (int ` {..<n})"
    by (intro card_mono) auto
  also have "\<dots> \<le> n"
    using card_image_le [of "{..<n}" int] by simp
  finally show ?thesis using assms(1) by (simp add: distinct_card)
qed

lemma rerank_results_nonempty:
  assumes "results \<noteq> []" "chunk_texts results = Inr documents"
    and "rerank_invoke w model_id (rerank_payload q documents) = Inr response"
  shows "rerank_results w model_id q results
           = (case top_score_of response of
                Inl e \<Rightarrow> Inl e
              | Inr top_score \<Rightarrow>
                  (case matching_indices (threshold_of top_score) response of
                     Inl e \<Rightarrow> Inl e
                   | Inr is \<Rightarrow> pick_results results is),
              [InvokeRerank model_id (rerank_payload q documents)])"
  using assms by (simp add: rerank_results_def io_raise_def io_lift_def split: sum.splits)

text \<open>
  C3, as the code computes it. The cutoff is the double product of the top score (the
  score of the first result, read as a double) and the double 0.40: it lies within one
  rounding of 0.4 times the top score, without being equal to it in general, and it does
  not fall when the top score rises. With every score present, the results kept are
  those whose score, read as a double, is strictly greater than the cutoff, in the order
  of the response; the model is invoked once, and when the indices kept lie in the
  submitted list, the reranked list is the list of the documents at these indices. A
  result whose score equals the cutoff is not kept.
\<close>

theorem rerank_threshold:
  assumes "results \<noteq> []"
    and "chunk_texts results = Inr documents"
    and "rerank_invoke w model_id (rerank_payload q documents) = Inr (best # rest)"
    and "relevance_score best = Some written"
    and "list_all (\<lambda>r. relevance_score r \<noteq> None) rest"
  shows "threshold_of (double_of written) = double_of (double_of written * double_of 0.40)
     \<and> \<bar>threshold_of (double_of written) - 0.4 * double_of written\<bar>
         \<le> \<bar>double_of written\<bar> / 2 ^ 53 + 1 / 2 ^ 1075
     \<and> (double_of written \<le> t \<longrightarrow> threshold_of (double_of written) \<le> threshold_of t)
     \<and> snd (rerank_results w model_id q results)
         = [InvokeRerank model_id (rerank_payload q documents)]
     \<and> (list_all (\<lambda>r. 0 \<le> result_index r \<and> result_index r < int (length results))
           (filter (\<lambda>r. threshold_of (double_of written) < double_of (the (relevance_score r)))
              (best # rest))
         \<longrightarrow> fst (rerank_results w model_id q results)
               = Inr (map (\<lambda>r. results ! nat (result_index r))
                        (filter (\<lambda>r. threshold_of (double_of written)
                                         < double_of (the (relevance_score r)))
                           (best # rest))))
     \<and> (\<forall>r. double_of (the (relevance_score r)) = threshold_of (double_of written) \<longrightarrow>
            r \<notin> set (filter (\<lambda>r. threshold_of (double_of written)
                                     < double_of (the (relevance_score r)))
                          (best # rest)))"
proof -
  let ?th = "threshold_of (double_of written)"
  let ?kept = "filter (\<lambda>r. ?th < double_of (the (relevance_score r))) (best # rest)"
  have th: "?th = double_of (double_of written * double_of 0.40)"
    by (simp add: threshold_of_def)
  have err: "\<bar>?th - 0.4 * double_of written\<bar> \<le> \<bar>double_of written\<bar> / 2 ^ 53 + 1 / 2 ^ 1075"
    by (rule threshold_of_error)
  have mono: "double_of written \<le> t \<longrightarrow> ?th \<le> threshold_of t"
    using threshold_of_mono by blast
  have all: "list_all (\<lambda>r. relevance_score r \<noteq> None) (best # rest)"
    using assms(4,5) by simp
  have first: "top_score_of (best # rest) = Inr (double_of written)"
    using assms(4) by (simp add: top_score_of_def)
  have run: "rerank_results w model_id q results
          = (pick_results results (map result_index ?kept),
             [InvokeRerank model_id (rerank_payload q documents)])"
    using rerank_results_nonempty [OF assms(1,2,3)] first matching_indices_filter [OF all]
    by simp
  then have ev: "snd (rerank_results w model_id q results)
                   = [InvokeRerank model_id (rerank_payload q documents)]"
    by simp
  have val: "fst (rerank_results w model_id q results)
               = Inr (map (\<lambda>r. results ! nat (result_index r)) ?kept)"
    if "list_all (\<lambda>r. 0 \<le> result_index r \<and> result_index r < int (length results)) ?kept"
  proof -
    from that
    have "list_all (\<lambda>i. 0 \<le> i \<and> i < int (length results)) (map result_index ?kept)"
      by (simp add: list_all_iff)
    from pick_results_in_range [OF this] run show ?thesis
      by (simp add: comp_def)
  qed
  have ex: "\<forall>r. double_of (the (relevance_score r)) = ?th \<longrightarrow> r \<notin> set ?kept"
    by auto
  from th err mono ev val ex show ?thesis by blast
qed

text \<open>
  Scenario B of the specification, with a fifth document E written at 0.36: the written
  scores A 0.9, B 0.85, E 0.36, C 0.3, D 0.1 give the cutoff 0.36000000000000004 and
  keep A and B.
\<close>

theorem rerank_threshold_witness:
  "rerank_results
      (silent_world\<lparr>rerank_invoke := (\<lambda>_ _. Inr [scored 0 0.9, scored 1 0.85, scored 4 0.36,
                                                   scored 2 0.3, scored 3 0.1])\<rparr>)
      ''reranker'' (JStr ''q'')
      [chunk_hit ''A'' 0.9 ''a'', chunk_hit ''B'' 0.8 ''b'', chunk_hit ''C'' 0.7 ''c'',
       chunk_hit ''D'' 4.0 ''d'', chunk_hit ''E'' 3.0 ''e'']
     = (Inr [chunk_hit ''A'' 0.9 ''a'', chunk_hit ''B'' 0.8 ''b''],
        [InvokeRerank ''reranker''
           (rerank_payload (JStr ''q'') [''a'', ''b'', ''c'', ''d'', ''e''])])
   \<and> threshold_of (double_of 0.9) = 6485183463413515 / 18014398509481984"
  (is "rerank_results ?w ?m ?q ?results = (Inr ?out, ?events) \<and> ?th")
proof -
  let ?rest = "[scored 1 0.85, scored 4 0.36, scored 2 0.3, scored 3 0.1]"
  let ?kept = "filter (\<lambda>r. threshold_of (double_of 0.9) < double_of (the (relevance_score r)))
                 (scored 0 0.9 # ?rest)"
  have 1: "?results \<noteq> []" by simp
  have 2: "chunk_texts ?results = Inr [''a'', ''b'', ''c'', ''d'', ''e'']"
    by (simp add: chunk_hit_def)
  have 3: "rerank_invoke ?w ?m (rerank_payload ?q [''a'', ''b'', ''c'', ''d'', ''e''])
             = Inr (scored 0 0.9 # ?rest)"
    by simp
  have 4: "relevance_score (scored 0 0.9) = Some 0.9" by (simp add: scored_def)
  have 5: "list_all (\<lambda>r. relevance_score r \<noteq> None) ?rest"
    by (simp add: scored_def del: not_None_eq)
  have th: "?th" by code_simp
  have kept: "?kept = [scored 0 0.9, scored 1 0.85]" by code_simp
  have range: "list_all (\<lambda>r. 0 \<le> result_index r \<and> result_index r < int (length ?results)) ?kept"
    by (simp only: kept) (simp add: scored_def)
  note t = rerank_threshold [OF 1 2 3 4 5, of 1]
  from t have ev: "snd (rerank_results ?w ?m ?q ?results) = ?events" by blast
  from t range
  have "fst (rerank_results ?w ?m ?q ?results)
          = Inr (map (\<lambda>r. ?results ! nat (result_index r)) ?kept)"
    by blast
  also have "\<dots> = Inr ?out"
    by (simp only: kept) (simp add: scored_def)
  finally have "rerank_results ?w ?m ?q ?results = (Inr ?out, ?events)"
    using ev by (simp add: prod_eq_iff)
  with th show ?thesis by blast
qed

text \<open>
  The claim as stated fails on decimal scores: 0.28 is 0.4 times 0.7, but the doubles
  give the cutoff 0.27999999999999997 for the top score 0.7, below the double 0.28, and
  the document written at 0.28 is kept.
\<close>

theorem rerank_threshold_counterexample:
  "fst (rerank_results
          (silent_world\<lparr>rerank_invoke := (\<lambda>_ _. Inr [scored 0 0.7, scored 1 0.28])\<rparr>)
          ''reranker'' (JStr ''q'') [chunk_hit ''A'' 0.9 ''a'', chunk_hit ''B'' 0.8 ''b''])
     = Inr [chunk_hit ''A'' 0.9 ''a'', chunk_hit ''B'' 0.8 ''b'']
   \<and> (0.28 :: rat) = 0.4 * 0.7
   \<and> threshold_of (double_of 0.7) = 5044031582654955 / 18014398509481984
   \<and> double_of 0.28 = 1261007895663739 / 4503599627370496"
  (is "fst (rerank_results ?w ?m ?q ?results) = Inr ?out \<and> ?eq \<and> ?th \<and> ?s")
proof -
  let ?response = "[scored 0 0.7, scored 1 0.28]"
  have 1: "?results \<noteq> []" by simp
  have 2: "chunk_texts ?results = Inr [''a'', ''b'']" by (simp add: chunk_hit_def)
  have 3: "rerank_invoke ?w ?m (rerank_payload ?q [''a'', ''b'']) = Inr ?response" by simp
  have first: "top_score_of ?response = Inr (double_of 0.7)"
    by (simp add: top_score_of_def scored_def)
  have m: "matching_indices (threshold_of (double_of 0.7)) ?response = Inr [0, 1]"
    by code_simp
  have "fst (rerank_results ?w ?m ?q ?results)
          = (case top_score_of ?response of
                Inl e \<Rightarrow> Inl e
              | Inr top_score \<Rightarrow>
                  (case matching_indices (threshold_of top_score) ?response of
                     Inl e \<Rightarrow> Inl e
                   | Inr is \<Rightarrow> pick_results ?results is))"
    by (simp only: rerank_results_nonempty [OF 1 2 3] fst_conv)
  also have "\<dots> = pick_results ?results [0, 1]"
    by (simp only: first m sum.case)
  also have "\<dots> = Inr ?out"
    by (simp add: py_nth_def position_def)
  finally have run: "fst (rerank_results ?w ?m ?q ?results) = Inr ?out" .
  have eq: "?eq" by simp
  have th: "?th" by code_simp
  have s: "?s" by code_simp
  from run eq th s show ?thesis by blast
qed

lemma rerank_results_Inr:
  assumes "fst (rerank_results w model_id q results) = Inr out" and "results \<noteq> []"
  obtains documents response top_score "is" where
    "chunk_texts results = Inr documents"
    "rerank_invoke w model_id (rerank_payload q documents) = Inr response"
    "top_score_of response = Inr top_score"
    "matching_indices (threshold_of top_score) response = Inr is"
    "pick_results results is = Inr out"
proof (cases "chunk_texts results")
  case (Inl e)
  with assms show ?thesis by (simp add: rerank_results_def)
next
  case docs: (Inr documents)
  show ?thesis
  proof (cases "rerank_invoke w model_id (rerank_payload q documents)")
    case (Inl e)
    with assms docs show ?thesis by (simp add: rerank_results_def)
  next
    case resp: (Inr response)
    from rerank_results_nonempty [OF assms(2) docs resp] assms(1)
    have "(case top_score_of response of
             Inl e \<Rightarrow> Inl e
           | Inr top_score \<Rightarrow>
               (case matching_indices (threshold_of top_score) response of
                  Inl e \<Rightarrow> Inl e
                | Inr is \<Rightarrow> pick_results results is)) = Inr out"
      by simp
    then obtain top_score "is" where
      "top_score_of response = Inr top_score"
      "matching_indices (threshold_of top_score) response = Inr is"
      "pick_results results is = Inr out"
      by (auto split: sum.splits)
    with docs resp that show ?thesis by blast
  qed
qed

lemma rerank_results_empty:
  "rerank_results w model_id q [] =
     (Inr [], [LogRecord WARNING ''No results provided for reranking.'' []])"
  by (simp add: rerank_results_def)

lemma rerank_results_subset:
  assumes "fst (rerank_results w model_id q results) = Inr out"
  shows "set out \<subseteq> set results"
proof (cases "results = []")
  case True
  with assms show ?thesis by (simp add: rerank_results_empty)
next
  case False
  from assms False show ?thesis
    by (rule rerank_results_Inr) (rule pick_results_mem)
qed

lemma rerank_results_length_kept:
  assumes out: "fst (rerank_results w model_id q results) = Inr out"
    and docs: "chunk_texts results = Inr documents"
    and resp: "rerank_invoke w model_id (rerank_payload q documents) = Inr response"
    and first: "top_score_of response = Inr top_score"
    and kept: "matching_indices (threshold_of top_score) response = Inr kept"
    and dist: "distinct (map (position (length results)) kept)"
  shows "length out \<le> length results"
proof (cases "results = []")
  case True
  with out show ?thesis by (simp add: rerank_results_empty)
next
  case False
  from out False obtain documents' response' top_score' "is" where
    d': "chunk_texts results = Inr documents'"
    and r': "rerank_invoke w model_id (rerank_payload q documents') = Inr response'"
    and t': "top_score_of response' = Inr top_score'"
    and m: "matching_indices (threshold_of top_score') response' = Inr is"
    and p: "pick_results results is = Inr out"
    by (rule rerank_results_Inr)
  from d' docs have "documents' = documents" by simp
  with r' resp have same: "response' = response" by simp
  with t' first have "top_score' = top_score" by simp
  with m same kept have "is = kept" by simp
  with dist have di: "distinct (map (position (length results)) is)" by simp
  have "\<forall>j \<in> set (map (position (length results)) is). 0 \<le> j \<and> j < int (length results)"
    using pick_results_position [OF p] by auto
  with di have "length (map (position (length results)) is) \<le> length results"
    by (rule distinct_nonneg_bounded)
  with pick_results_length [OF p] show ?thesis by simp
qed

lemma rerank_results_length:
  assumes out: "fst (rerank_results w model_id q results) = Inr out"
    and docs: "chunk_texts results = Inr documents"
    and resp: "rerank_invoke w model_id (rerank_payload q documents) = Inr response"
    and dist: "distinct (map (\<lambda>r. position (length results) (result_index r)) response)"
  shows "length out \<le> length results"
proof (cases "results = []")
  case True
  with out show ?thesis by (simp add: rerank_results_empty)
next
  case False
  from out False obtain documents' response' top_score "is" where
    d': "chunk_texts results = Inr documents'"
    and r': "rerank_invoke w model_id (rerank_payload q documents') = Inr response'"
    and t': "top_score_of response' = Inr top_score"
    and m: "matching_indices (threshold_of top_score) response' = Inr is"
    by (rule rerank_results_Inr)
  from d' docs have "documents' = documents" by simp
  with r' resp have same: "response' = response" by simp
  from dist have "distinct (map (position (length results)) (map result_index response))"
    by (simp add: comp_def)
  with matching_indices_props [OF m, of "position (length results)"] same
  have "distinct (map (position (length results)) is)" by simp
  with out docs resp t' m same show ?thesis
    by (intro rerank_results_length_kept [of w model_id q results out documents response top_score "is"])
       simp_all
qed

text \<open>
  C7. Every document of the reranked list is a document of the input. The reranked list
  is no longer than the input whenever the indices the code keeps name pairwise distinct
  positions of the input (an index below zero names a position from the end, as Python
  reads it); this is so in particular when no two results of the response name the same
  position, as with a reranking model that returns one score per input position. An
  empty input returns the empty list after one warning, with no call of the model.
\<close>

theorem rerank_never_grows:
  "(fst (rerank_results w model_id q results) = Inr out \<longrightarrow> set out \<subseteq> set results)
   \<and> (fst (rerank_results w model_id q results) = Inr out
        \<and> chunk_texts results = Inr documents
        \<and> rerank_invoke w model_id (rerank_payload q documents) = Inr response
        \<and> top_score_of response = Inr top_score
        \<and> matching_indices (threshold_of top_score) response = Inr kept
        \<and> distinct (map (position (length results)) kept)
      \<longrightarrow> length out \<le> length results)
   \<and> (fst (rerank_results w model_id q results) = Inr out
        \<and> chunk_texts results = Inr documents
        \<and> rerank_invoke w model_id (rerank_payload q documents) = Inr response
        \<and> distinct (map (\<lambda>r. position (length results) (result_index r)) response)
      \<longrightarrow> length out \<le> length results)
   \<and> rerank_results w model_id q [] =
       (Inr [], [LogRecord WARNING ''No results provided for reranking.'' []])"
proof (intro conjI impI)
  assume "fst (rerank_results w model_id q results) = Inr out"
  then show "set out \<subseteq> set results" by (rule rerank_results_subset)
next
  assume "fst (rerank_results w model_id q results) = Inr out
        \<and> chunk_texts results = Inr documents
        \<and> rerank_invoke w model_id (rerank_payload q documents) = Inr response
        \<and> top_score_of response = Inr top_score
        \<and> matching_indices (threshold_of top_score) response = Inr kept
        \<and> distinct (map (position (length results)) kept)"
  then show "length out \<le> length results"
    by (elim conjE) (rule rerank_results_length_kept)
next
  assume "fst (rerank_results w model_id q results) = Inr out
        \<and> chunk_texts results = Inr documents
        \<and> rerank_invoke w model_id (rerank_payload q documents) = Inr response
        \<and> distinct (map (\<lambda>r. position (length results) (result_index r)) response)"
  then show "length out \<le> length results"
    by (elim conjE) (rule rerank_results_length)
next
  show "rerank_results w model_id q [] =
       (Inr [], [LogRecord WARNING ''No results provided for reranking.'' []])"
    by (rule rerank_results_empty)
qed

text \<open>
  The response of Scenario B names the positions 0, 1, 4, 2, 3 once each: the two
  documents kept are among the five submitted.
\<close>

theorem rerank_never_grows_witness:
  "fst (rerank_results
          (silent_world\<lparr>rerank_invoke := (\<lambda>_ _. Inr [scored 0 0.9, scored 1 0.85, scored 4 0.36,
                                                       scored 2 0.3, scored 3 0.1])\<rparr>)
          ''reranker'' (JStr ''q'')
          [chunk_hit ''A'' 0.9 ''a'', chunk_hit ''B'' 0.8 ''b'', chunk_hit ''C'' 0.7 ''c'',
           chunk_hit ''D'' 4.0 ''d'', chunk_hit ''E'' 3.0 ''e''])
     = Inr [chunk_hit ''A'' 0.9 ''a'', chunk_hit ''B'' 0.8 ''b'']
   \<and> set [chunk_hit ''A'' 0.9 ''a'', chunk_hit ''B'' 0.8 ''b'']
       \<subseteq> set [chunk_hit ''A'' 0.9 ''a'', chunk_hit ''B'' 0.8 ''b'', chunk_hit ''C'' 0.7 ''c'',
                chunk_hit ''D'' 4.0 ''d'', chunk_hit ''E'' 3.0 ''e'']
   \<and> length [chunk_hit ''A'' 0.9 ''a'', chunk_hit ''B'' 0.8 ''b'']
       \<le> length [chunk_hit ''A'' 0.9 ''a'', chunk_hit ''B'' 0.8 ''b'', chunk_hit ''C'' 0.7 ''c'',
                   chunk_hit ''D'' 4.0 ''d'', chunk_hit ''E'' 3.0 ''e'']"
  (is "fst (rerank_results ?w ?m ?q ?results) = Inr ?out \<and> ?sub \<and> ?len")
proof -
  let ?response = "[scored 0 0.9, scored 1 0.85, scored 4 0.36, scored 2 0.3, scored 3 0.1]"
  have 1: "?results \<noteq> []" by simp
  have docs: "chunk_texts ?results = Inr [''a'', ''b'', ''c'', ''d'', ''e'']"
    by (simp add: chunk_hit_def)
  have resp: "rerank_invoke ?w ?m (rerank_payload ?q [''a'', ''b'', ''c'', ''d'', ''e''])
                = Inr ?response"
    by simp
  have first: "top_score_of ?response = Inr (double_of 0.9)"
    by (simp add: top_score_of_def scored_def)
  have m: "matching_indices (threshold_of (double_of 0.9)) ?response = Inr [0, 1]"
    by code_simp
  have "fst (rerank_results ?w ?m ?q ?results)
          = (case top_score_of ?response of
                Inl e \<Rightarrow> Inl e
              | Inr top_score \<Rightarrow>
                  (case matching_indices (threshold_of top_score) ?response of
                     Inl e \<Rightarrow> Inl e
                   | Inr is \<Rightarrow> pick_results ?results is))"
    by (simp only: rerank_results_nonempty [OF 1 docs resp] fst_conv)
  also have "\<dots> = pick_results ?results [0, 1]"
    by (simp only: first m sum.case)
  also have "\<dots> = Inr ?out"
    by (simp add: py_nth_def position_def)
  finally have run: "fst (rerank_results ?w ?m ?q ?results) = Inr ?out" .
  have dist: "distinct (map (position (length ?results)) [0, 1])"
    by (simp add: position_def)
  note t = rerank_never_grows
    [of ?w ?m ?q ?results ?out "[''a'', ''b'', ''c'', ''d'', ''e'']" ?response
        "double_of 0.9" "[0, 1]"]
  from t run have s: "?sub" by blast
  from t run docs resp first m dist have l: "?len" by blast
  from run s l show ?thesis by blast
qed

text \<open>
  C10. The first result of the response has no \<open>relevance_score\<close>: the top score defaults
  to 0, and the comprehension then reads the absent key and raises \<open>KeyError\<close>; no list is
  returned.
\<close>

theorem rerank_absent_score_raises:
  "fst (rerank_results
          (silent_world\<lparr>rerank_invoke := (\<lambda>_ _. Inr [\<lparr>result_index = 0, relevance_score = None\<rparr>])\<rparr>)
          ''reranker'' (JStr ''q'') [chunk_hit ''A'' 0.9 ''a''])
     = Inl KeyError"
  by (simp add: rerank_results_def chunk_hit_def rerank_payload_def
        top_score_of_def threshold_of_def)

section \<open>Properties of the guardrail check\<close>

lemma is_query_allowed_unset:
  assumes "ai_get cfg ''bedrock_guardrail_id'' ''not_found'' = ''not_found''"
  shows "is_query_allowed w cfg q =
           (Inr True, [LogRecord WARNING ''Guardrail not set. User query not checked.'' []])"
  using assms by (simp add: is_query_allowed_def)

lemma is_query_allowed_set:
  assumes "ai_get cfg ''bedrock_guardrail_id'' ''not_found'' \<noteq> ''not_found''"
  shows "is_query_allowed w cfg q =
           (case bedrock_invoke w (Some (guardrail_body q))
                   (Some (ai_get cfg ''bedrock_guardrail_id'' ''not_found'',
                          ai_get cfg ''bedrock_guardrail_version'' ''DRAFT'')) of
              Inl e \<Rightarrow> Inl e
            | Inr raw \<Rightarrow>
                (case json_loads w raw of
                   None \<Rightarrow> Inl JSONDecodeError
                 | Some response_body \<Rightarrow>
                     (case py_get response_body ''amazon-bedrock-guardrailAction'' JNull of
                        Inl e \<Rightarrow> Inl e
                      | Inr action \<Rightarrow> Inr (action \<noteq> JStr ''INTERVENED''))),
            [InvokeModel (Some (guardrail_body q))
               (Some (ai_get cfg ''bedrock_guardrail_id'' ''not_found'',
                      ai_get cfg ''bedrock_guardrail_version'' ''DRAFT''))])"
  using assms
  by (simp add: is_query_allowed_def invoke_model_response_def io_raise_def io_return_def
        split: sum.splits option.splits)

text \<open>
  C6. With no guardrail identifier in the configuration (no section \<open>ai\<close>, or no key
  \<open>bedrock_guardrail_id\<close> in it), \<open>is_query_allowed\<close> returns true after logging one
  warning and calls no service. With an identifier configured, when the moderation call
  returns a dictionary, the result is false exactly when the field
  \<open>amazon-bedrock-guardrailAction\<close> is the string \<open>INTERVENED\<close>, and true for every other
  value and when the field is absent.
\<close>

theorem is_query_allowed_guardrail:
  "((case ai cfg of None \<Rightarrow> True
               | Some section \<Rightarrow> map_of section ''bedrock_guardrail_id'' = None)
      \<longrightarrow> is_query_allowed w cfg q =
            (Inr True, [LogRecord WARNING ''Guardrail not set. User query not checked.'' []]))
   \<and> (ai cfg = Some section
        \<and> map_of section ''bedrock_guardrail_id'' = Some guardrail_id
        \<and> guardrail_id \<noteq> ''not_found''
        \<and> bedrock_invoke w (Some (guardrail_body q))
              (Some (guardrail_id, ai_get cfg ''bedrock_guardrail_version'' ''DRAFT'')) = Inr raw
        \<and> json_loads w raw = Some (JObj response_body)
      \<longrightarrow> fst (is_query_allowed w cfg q)
            = Inr (map_of response_body ''amazon-bedrock-guardrailAction''
                     \<noteq> Some (JStr ''INTERVENED'')))"
proof (intro conjI impI)
  assume "case ai cfg of None \<Rightarrow> True
          | Some section \<Rightarrow> map_of section ''bedrock_guardrail_id'' = None"
  then have "ai_get cfg ''bedrock_guardrail_id'' ''not_found'' = ''not_found''"
    by (simp add: ai_get_def split: option.splits)
  then show "is_query_allowed w cfg q =
      (Inr True, [LogRecord WARNING ''Guardrail not set. User query not checked.'' []])"
    by (rule is_query_allowed_unset)
next
  assume a: "ai cfg = Some section
        \<and> map_of section ''bedrock_guardrail_id'' = Some guardrail_id
        \<and> guardrail_id \<noteq> ''not_found''
        \<and> bedrock_invoke w (Some (guardrail_body q))
              (Some (guardrail_id, ai_get cfg ''bedrock_guardrail_version'' ''DRAFT'')) = Inr raw
        \<and> json_loads w raw = Some (JObj response_body)"
  then have g: "ai_get cfg ''bedrock_guardrail_id'' ''not_found'' = guardrail_id"
    by (simp add: ai_get_def)
  with a have "ai_get cfg ''bedrock_guardrail_id'' ''not_found'' \<noteq> ''not_found''" by simp
  from is_query_allowed_set [OF this, of w q] a g
  show "fst (is_query_allowed w cfg q)
          = Inr (map_of response_body ''amazon-bedrock-guardrailAction''
                   \<noteq> Some (JStr ''INTERVENED''))"
    by (auto simp: py_get_def split: option.splits)
qed

text \<open>
  Without a guardrail the check passes with its warning; with the guardrail \<open>g1\<close> the
  action \<open>INTERVENED\<close> gives false and the action \<open>NONE\<close> gives true.
\<close>

theorem is_query_allowed_guardrail_witness:
  "is_query_allowed silent_world base_config ''q'' =
     (Inr True, [LogRecord WARNING ''Guardrail not set. User query not checked.'' []])
   \<and> fst (is_query_allowed (guardrail_world ''INTERVENED'') guarded_config ''q'') = Inr False
   \<and> fst (is_query_allowed (guardrail_world ''NONE'') guarded_config ''q'') = Inr True"
proof -
  have 1: "is_query_allowed silent_world base_config ''q'' =
     (Inr True, [LogRecord WARNING ''Guardrail not set. User query not checked.'' []])"
    using is_query_allowed_guardrail [of base_config silent_world "''q''"]
    by (simp add: base_config_def)
  have 2: "fst (is_query_allowed (guardrail_world ''INTERVENED'') guarded_config ''q'') = Inr False"
    using is_query_allowed_guardrail
      [of guarded_config "guardrail_world ''INTERVENED''" "''q''"
          "[(''bedrock_guardrail_id'', ''g1'')]" "''g1''" "''r''"
          "[(''amazon-bedrock-guardrailAction'', JStr ''INTERVENED'')]"]
    by (simp add: guarded_config_def base_config_def guardrail_world_def silent_world_def ai_get_def)
  have 3: "fst (is_query_allowed (guardrail_world ''NONE'') guarded_config ''q'') = Inr True"
    using is_query_allowed_guardrail
      [of guarded_config "guardrail_world ''NONE''" "''q''"
          "[(''bedrock_guardrail_id'', ''g1'')]" "''g1''" "''r''"
          "[(''amazon-bedrock-guardrailAction'', JStr ''NONE'')]"]
    by (simp add: guarded_config_def base_config_def guardrail_world_def silent_world_def ai_get_def)
  from 1 2 3 show ?thesis by blast
qed

section \<open>Properties of the orchestrator\<close>

text \<open>
  C4. When the guardrail check returns false, \<open>answer_question\<close> returns the fixed
  refusal payload with the empty document list, whatever the retriever and the formatter
  are, and the only event of the run is the moderation call of the check: no embedding,
  no search, no reranking, no request body and no other model invocation.
\<close>

theorem answer_question_refusal:
  assumes "fst (is_query_allowed w cfg (question params)) = Inr False"
  shows "answer_question retrieve format w cfg params =
           (Inr (JObj [(''content'', JArr [JObj [(''text'', JStr ''Cannot answer to this question.'')]])],
                 []),
            [InvokeModel (Some (guardrail_body (question params)))
               (Some (ai_get cfg ''bedrock_guardrail_id'' ''not_found'',
                      ai_get cfg ''bedrock_guardrail_version'' ''DRAFT''))])"
proof -
  have set: "ai_get cfg ''bedrock_guardrail_id'' ''not_found'' \<noteq> ''not_found''"
  proof
    assume "ai_get cfg ''bedrock_guardrail_id'' ''not_found'' = ''not_found''"
    from is_query_allowed_unset [OF this, of w "question params"] assms
    show False by simp
  qed
  from is_query_allowed_set [OF set, of w "question params"]
  have ev: "snd (is_query_allowed w cfg (question params)) =
           [InvokeModel (Some (guardrail_body (question params)))
               (Some (ai_get cfg ''bedrock_guardrail_id'' ''not_found'',
                      ai_get cfg ''bedrock_guardrail_version'' ''DRAFT''))]"
    by simp
  have "answer_question retrieve format w cfg params =
          (Inr (do_not_nswer (question params), []),
           snd (is_query_allowed w cfg (question params)))"
    using assms by (simp add: answer_question_def io_bind_def)
  with ev show ?thesis by (simp add: do_not_nswer_def)
qed

text \<open>Scenario D of the specification: the guardrail \<open>g1\<close> intervenes.\<close>

theorem answer_question_refusal_witness:
  "answer_question retrieve_context format_context (guardrail_world ''INTERVENED'') guarded_config
     \<lparr>question = ''q'', instructions = ''''\<rparr> =
     (Inr (JObj [(''content'', JArr [JObj [(''text'', JStr ''Cannot answer to this question.'')]])],
           []),
      [InvokeModel (Some (guardrail_body ''q'')) (Some (''g1'', ''DRAFT''))])"
proof -
  have "fst (is_query_allowed (guardrail_world ''INTERVENED'') guarded_config
               (question \<lparr>question = ''q'', instructions = ''''\<rparr>)) = Inr False"
    by (simp add: is_query_allowed_def guarded_config_def base_config_def guardrail_world_def
          silent_world_def ai_get_def invoke_model_response_def py_get_def)
  from answer_question_refusal [OF this, of retrieve_context format_context]
  show ?thesis
    by (simp add: guarded_config_def base_config_def ai_get_def)
qed

section \<open>Properties of the retrieval pipeline\<close>

lemma translated_query_of_total:
  "\<exists>v. fst (translated_query_of w cfg q) = Inr v"
proof (cases "fst (io_bind (translate_to_french w cfg q) (\<lambda>translation_result.
          case translation_result of
            None \<Rightarrow> io_raise AttributeError
          | Some r \<Rightarrow>
              io_bind (io_lift (py_get r ''content'' (JArr [JObj []]))) (\<lambda>content.
                io_bind (io_lift (py_item0 content)) (\<lambda>block.
                  io_lift (py_get block ''text'' (JStr q))))))")
  case (Inl e)
  then show ?thesis by (simp add: translated_query_of_def io_try_def)
next
  case (Inr v)
  then show ?thesis by (simp add: translated_query_of_def io_try_def)
qed

lemma translated_query_of_fallback:
  assumes "fst (translate_to_french w cfg q) = Inr None \<or> fst (translate_to_french w cfg q) = Inl e"
  shows "translated_query_of w cfg q =
           (Inr (JStr q),
            snd (translate_to_french w cfg q)
            @ [LogRecord WARNING ''Query translation failed, using original query. Error: {e}'' []])"
  using assms
  by (auto simp: translated_query_of_def io_try_def fst_io_bind_Inr snd_io_bind_Inr io_bind_Inl)

lemma translate_client_error:
  assumes "ai cfg = Some section"
    and "build_request_body w (map_of section ''prompt_translate_template_id'')
           [JStr q, JStr ''fr''] [] = Inr body"
    and "bedrock_invoke w body None = Inl ClientError"
  shows "fst (translate_to_french w cfg q) = Inr None"
  using assms
  by (simp add: translate_to_french_def translate_def call_build_request_body_def
        invoke_model_def invoke_model_response_def)

lemma invoke_model_returns:
  assumes "bedrock_invoke w body None = Inr raw"
    and "json_loads w raw = Some (JObj answer)"
    and "map_of answer ''error'' = None"
  shows "invoke_model w body = (Inr (JObj answer), [InvokeModel body None])"
  using assms
  by (simp add: invoke_model_def invoke_model_response_def py_get_def io_return_def)

lemma preprocess_query_keywords:
  assumes "build_request_body w (Some ''analyze_query'') [query] [] = Inr request_body"
    and "bedrock_invoke w request_body None = Inr raw"
    and "json_loads w raw = Some (JObj answer)"
    and "map_of answer ''error'' = None"
    and "map_of answer ''content'' = Some (JArr (JObj block # blocks))"
    and "map_of block ''text'' = Some (JStr text)"
    and "json_loads w text = Some (JObj analysis)"
    and "map_of analysis ''search_elements'' = Some (JArr terms)"
    and "the_strings terms = Inr keywords"
  shows "preprocess_query w query =
           (Inr (JStr (join_strings '', '' keywords)),
            [BuildRequestBody (Some ''analyze_query'') [query] [],
             InvokeModel request_body None])"
  using assms invoke_model_returns [OF assms(2,3,4)]
  by (simp add: preprocess_query_def analyze_query_def call_build_request_body_def
        answer_json_def py_get_def py_item0_def truthy_def loads_def py_join_def
        io_return_def
        split: option.splits)

lemma perform_search_returns:
  "opensearch_search w search_body = Inr hits \<Longrightarrow>
   io_try (io_call (Search search_body) (opensearch_search w search_body)) search_handler
     = (Inr hits, [Search search_body])"
  by (simp add: io_call_def)

text \<open>
  C5. When \<open>translate_to_french\<close> returns \<open>None\<close> (or raises), the translation step yields
  the original text and one warning, and the pipeline goes on: the keyword extraction
  request is built from the original text and sent to the model, the lexical search is
  run on the keywords extracted from it, and the result is the merge of the vector hits
  and these lexical hits (reranked against the original text when a reranking model is
  configured). The events of the run are the embedding, the vector search, those of the
  translation, the warning, the keyword extraction request and its invocation, the
  lexical search, and those of the reranking.
\<close>

theorem translation_fallback:
  assumes "fst (translate_to_french w cfg q) = Inr None \<or> fst (translate_to_french w cfg q) = Inl e"
    and "get_embeddings w q = Inr query_embeddings"
    and "opensearch_search w
           (with_source_fields include_fields
              (get_knn_search_body cfg (if rerank_configured cfg then 20 else 8) query_embeddings))
         = Inr results_knn"
    and "build_request_body w (Some ''analyze_query'') [JStr q] [] = Inr request_body"
    and "bedrock_invoke w request_body None = Inr raw"
    and "json_loads w raw = Some (JObj answer)"
    and "map_of answer ''error'' = None"
    and "map_of answer ''content'' = Some (JArr (JObj block # blocks))"
    and "map_of block ''text'' = Some (JStr text)"
    and "json_loads w text = Some (JObj analysis)"
    and "map_of analysis ''search_elements'' = Some (JArr terms)"
    and "the_strings terms = Inr keywords"
    and "opensearch_search w
           (JObj ([(''query'', JObj [(''multi_match'', JObj
                      [(''query'', JStr (join_strings '', '' keywords)),
                       (''fields'', JArr [JStr ''AMAZON_BEDROCK_TEXT_CHUNK'', JStr ''longtitle'']),
                       (''type'', JStr ''best_fields''),
                       (''operator'', JStr ''or''),
                       (''fuzziness'', JStr ''AUTO'')])]),
                   (''size'', JNum 5),
                   (''from'', JNum 0)]
                  @ (case include_fields of
                       None \<Rightarrow> []
                     | Some names \<Rightarrow> [(''_source'', JArr (map JStr names))])))
         = Inr results_bm25"
  shows "translated_query_of w cfg q =
           (Inr (JStr q),
            snd (translate_to_french w cfg q)
            @ [LogRecord WARNING ''Query translation failed, using original query. Error: {e}'' []])
     \<and> fst (retrieve_context w cfg q include_fields)
         = (if rerank_configured cfg
            then fst (rerank_results w (the (rerank_model_id cfg)) (JStr q)
                        (merge_hits results_knn results_bm25))
            else Inr (merge_hits results_knn results_bm25))
     \<and> snd (retrieve_context w cfg q include_fields)
         = [GetEmbeddings q,
            Search (with_source_fields include_fields
                      (get_knn_search_body cfg (if rerank_configured cfg then 20 else 8)
                         query_embeddings))]
           @ snd (translate_to_french w cfg q)
           @ [LogRecord WARNING ''Query translation failed, using original query. Error: {e}'' [],
              BuildRequestBody (Some ''analyze_query'') [JStr q] [],
              InvokeModel request_body None,
              Search (JObj ([(''query'', JObj [(''multi_match'', JObj
                      [(''query'', JStr (join_strings '', '' keywords)),
                       (''fields'', JArr [JStr ''AMAZON_BEDROCK_TEXT_CHUNK'', JStr ''longtitle'']),
                       (''type'', JStr ''best_fields''),
                       (''operator'', JStr ''or''),
                       (''fuzziness'', JStr ''AUTO'')])]),
                   (''size'', JNum 5),
                   (''from'', JNum 0)]
                  @ (case include_fields of
                       None \<Rightarrow> []
                     | Some names \<Rightarrow> [(''_source'', JArr (map JStr names))])))]
           @ (if rerank_configured cfg
              then snd (rerank_results w (the (rerank_model_id cfg)) (JStr q)
                          (merge_hits results_knn results_bm25))
              else [])"
proof -
  let ?knn_body = "with_source_fields include_fields
              (get_knn_search_body cfg (if rerank_configured cfg then 20 else 8) query_embeddings)"
  let ?bm25_body = "JObj ([(''query'', JObj [(''multi_match'', JObj
                      [(''query'', JStr (join_strings '', '' keywords)),
                       (''fields'', JArr [JStr ''AMAZON_BEDROCK_TEXT_CHUNK'', JStr ''longtitle'']),
                       (''type'', JStr ''best_fields''),
                       (''operator'', JStr ''or''),
                       (''fuzziness'', JStr ''AUTO'')])]),
                   (''size'', JNum 5),
                   (''from'', JNum 0)]
                  @ (case include_fields of
                       None \<Rightarrow> []
                     | Some names \<Rightarrow> [(''_source'', JArr (map JStr names))]))"
  let ?warning = "LogRecord WARNING ''Query translation failed, using original query. Error: {e}'' []"
  let ?merged = "merge_hits results_knn results_bm25"
  have tq: "translated_query_of w cfg q =
              (Inr (JStr q), snd (translate_to_french w cfg q) @ [?warning])"
    using assms(1) by (rule translated_query_of_fallback)
  have vs: "perform_vector_search w cfg query_embeddings
              (if rerank_configured cfg then 20 else 8) include_fields
            = (Inr results_knn, [Search ?knn_body])"
    unfolding perform_vector_search_def Let_def
    using assms(3) by (rule perform_search_returns)
  have pq: "preprocess_query w (JStr q) =
              (Inr (JStr (join_strings '', '' keywords)),
               [BuildRequestBody (Some ''analyze_query'') [JStr q] [],
                InvokeModel request_body None])"
    using assms(4-12) by (rule preprocess_query_keywords)
  have body: "with_source_fields include_fields
                (get_bm25_search_body 5 (JStr (join_strings '', '' keywords))) = ?bm25_body"
    by (simp add: with_source_fields_def get_bm25_search_body_def split: option.splits)
  have ls: "perform_bm25_search w (JStr (join_strings '', '' keywords)) 5 include_fields
            = (Inr results_bm25, [Search ?bm25_body])"
    unfolding perform_bm25_search_def Let_def body
    using assms(13) by (rule perform_search_returns)
  have lmr: "lexical_merge_rerank w cfg include_fields results_knn (JStr q) =
          (if rerank_configured cfg
           then fst (rerank_results w (the (rerank_model_id cfg)) (JStr q) ?merged)
           else Inr ?merged,
           [BuildRequestBody (Some ''analyze_query'') [JStr q] [],
            InvokeModel request_body None, Search ?bm25_body]
           @ (if rerank_configured cfg
              then snd (rerank_results w (the (rerank_model_id cfg)) (JStr q) ?merged)
              else []))"
    by (simp add: lexical_merge_rerank_def pq ls Let_def io_return_def)
  have rc: "retrieve_context w cfg q include_fields =
          (if rerank_configured cfg
           then fst (rerank_results w (the (rerank_model_id cfg)) (JStr q) ?merged)
           else Inr ?merged,
           [GetEmbeddings q, Search ?knn_body]
           @ snd (translate_to_french w cfg q)
           @ [?warning, BuildRequestBody (Some ''analyze_query'') [JStr q] [],
              InvokeModel request_body None, Search ?bm25_body]
           @ (if rerank_configured cfg
              then snd (rerank_results w (the (rerank_model_id cfg)) (JStr q) ?merged)
              else []))"
    by (simp add: retrieve_context_def assms(2) Let_def vs tq lmr)
  from tq rc show ?thesis by simp
qed

text \<open>
  Scenario C of the specification: the invocation of the translation template raises a
  client error. The vector search returns A and B; the lexical search, asked for the
  keywords extracted from the original query, returns B and C; retrieval returns A, B, C.
\<close>

theorem translation_fallback_witness:
  "retrieve_context (scripted_world ''translate'' ClientError parsed_answers)
     translating_config ''q'' None
   = (Inr [chunk_hit ''A'' 0.9 ''a'', chunk_hit ''B'' 0.8 ''b'', chunk_hit ''C'' 4.0 ''c''],
      [GetEmbeddings ''q'',
       Search (JObj (get_knn_search_body translating_config 8 [1])),
       BuildRequestBody (Some ''translate'') [JStr ''q'', JStr ''fr''] [],
       InvokeModel (Some (JStr ''translate'')) None,
       LogRecord ERROR ''AWS client error during translation: %s'' [],
       LogRecord WARNING ''Query translation failed, using original query. Error: {e}'' [],
       BuildRequestBody (Some ''analyze_query'') [JStr ''q''] [],
       InvokeModel (Some (JStr ''analyze_query'')) None,
       Search (JObj (get_bm25_search_body 5 (JStr ''eu, position'')))])"
  (is "retrieve_context ?w ?cfg ?q None = (Inr ?out, ?events)")
proof -
  have tr: "translate_to_french ?w ?cfg ?q =
              (Inr None,
               [BuildRequestBody (Some ''translate'') [JStr ''q'', JStr ''fr''] [],
                InvokeModel (Some (JStr ''translate'')) None,
                LogRecord ERROR ''AWS client error during translation: %s'' []])"
    by (simp add: translate_to_french_def translate_def translating_config_def base_config_def
          scripted_world_def call_build_request_body_def invoke_model_def
          invoke_model_response_def io_try_def io_call_def io_return_def)
  then have 1: "fst (translate_to_french ?w ?cfg ?q) = Inr None
                \<or> fst (translate_to_french ?w ?cfg ?q) = Inl OtherError"
    by simp
  have nr: "\<not> rerank_configured ?cfg"
    by (simp add: rerank_configured_def translating_config_def base_config_def)
  have 2: "get_embeddings ?w ?q = Inr [1]" by (simp add: scripted_world_def)
  have 3: "opensearch_search ?w
             (with_source_fields None
                (get_knn_search_body ?cfg (if rerank_configured ?cfg then 20 else 8) [1]))
           = Inr [chunk_hit ''A'' 0.9 ''a'', chunk_hit ''B'' 0.8 ''b'']"
    by (simp add: nr scripted_world_def with_source_fields_def get_knn_search_body_def
          get_bm25_search_body_def)
  have 4: "build_request_body ?w (Some ''analyze_query'') [JStr ?q] []
             = Inr (Some (JStr ''analyze_query''))"
    by (simp add: scripted_world_def)
  have 5: "bedrock_invoke ?w (Some (JStr ''analyze_query'')) None = Inr ''a''"
    by (simp add: scripted_world_def)
  have 6: "json_loads ?w ''a'' = Some (JObj [(''content'', JArr [JObj [(''text'', JStr ''k'')]])])"
    by (simp add: scripted_world_def parsed_answers_def)
  have 7: "map_of [(''content'', JArr [JObj [(''text'', JStr ''k'')]])] ''error'' = None"
    by simp
  have 8: "map_of [(''content'', JArr [JObj [(''text'', JStr ''k'')]])] ''content''
             = Some (JArr (JObj [(''text'', JStr ''k'')] # []))"
    by simp
  have 9: "map_of [(''text'', JStr ''k'')] ''text'' = Some (JStr ''k'')" by simp
  have 10: "json_loads ?w ''k'' = Some (JObj
              [(''intent'', JStr ''ask''), (''reformulated_query'', JStr ''rq''),
               (''search_elements'', JArr [JStr ''eu'', JStr ''position''])])"
    by (simp add: scripted_world_def parsed_answers_def)
  have 11: "map_of [(''intent'', JStr ''ask''), (''reformulated_query'', JStr ''rq''),
               (''search_elements'', JArr [JStr ''eu'', JStr ''position''])] ''search_elements''
            = Some (JArr [JStr ''eu'', JStr ''position''])"
    by simp
  have 12: "the_strings [JStr ''eu'', JStr ''position''] = Inr [''eu'', ''position'']"
    by simp
  have 13: "opensearch_search ?w
           (JObj ([(''query'', JObj [(''multi_match'', JObj
                      [(''query'', JStr (join_strings '', '' [''eu'', ''position''])),
                       (''fields'', JArr [JStr ''AMAZON_BEDROCK_TEXT_CHUNK'', JStr ''longtitle'']),
                       (''type'', JStr ''best_fields''),
                       (''operator'', JStr ''or''),
                       (''fuzziness'', JStr ''AUTO'')])]),
                   (''size'', JNum 5),
                   (''from'', JNum 0)]
                  @ (case None :: string list option of
                       None \<Rightarrow> []
                     | Some names \<Rightarrow> [(''_source'', JArr (map JStr names))])))
         = Inr [chunk_hit ''B'' 5.0 ''b'', chunk_hit ''C'' 4.0 ''c'']"
    by (simp add: scripted_world_def get_bm25_search_body_def)
  note t = translation_fallback [OF 1 2 3 4 5 6 7 8 9 10 11 12 13]
  have merged: "merge_hits [chunk_hit ''A'' 0.9 ''a'', chunk_hit ''B'' 0.8 ''b'']
                  [chunk_hit ''B'' 5.0 ''b'', chunk_hit ''C'' 4.0 ''c''] = ?out"
    by (simp add: merge_hits_def get_distinct_values_def chunk_hit_def)
  from t nr merged have v: "fst (retrieve_context ?w ?cfg ?q None) = Inr ?out"
    by simp
  from t nr tr have e: "snd (retrieve_context ?w ?cfg ?q None) = ?events"
    by (simp add: with_source_fields_def get_bm25_search_body_def)
  from v e show ?thesis by (simp add: prod_eq_iff)
qed

section \<open>Properties of answer generation\<close>

lemma get_query_intent_unparsable:
  assumes "build_request_body w (Some ''get_query_intent'') [JStr q] [] = Inr body"
    and "bedrock_invoke w body None = Inr raw"
    and "json_loads w raw = Some (JObj answer)"
    and "map_of answer ''error'' = None \<or> map_of answer ''error'' = Some JNull"
    and "map_of answer ''content'' = Some (JArr (JObj block # blocks))"
    and "map_of block ''text'' = Some (JStr text)"
    and "json_loads w text = None"
  shows "fst (get_query_intent w q) = Inr None"
  using assms
  by (auto simp: get_query_intent_def call_build_request_body_def invoke_model_def
        invoke_model_response_def answer_json_def py_get_def py_item0_def truthy_def loads_def
        json_decode_handler_def io_raise_def io_return_def)

lemma generate_answer_text_no_intent:
  assumes "fst (format cfg documents) = Inr (context, formatted)"
    and "fst (get_query_intent w q) = Inr None"
  shows "fst (generate_answer_text format w cfg q documents instruction_values)
           = Inl AttributeError"
  using assms
  by (simp add: generate_answer_text_def fst_io_bind_Inr)

lemma generate_answer_text_invoke:
  assumes "fst (format cfg documents) = Inr (context, formatted)"
    and "fst (get_query_intent w q) = Inr (Some qi)"
    and "build_request_body w (Some ''answer_question'')
           [JStr context, reformulated_query qi] instruction_values = Inr body"
  shows "fst (generate_answer_text format w cfg q documents instruction_values)
           = (case fst (invoke_model w body) of
                Inr answer \<Rightarrow> Inr (answer, formatted)
              | Inl e \<Rightarrow>
                  if e = ParamValidationError then Inl ValueError
                  else if e = ClientError then Inr (JObj [], formatted)
                  else Inl e)"
  using assms
  by (cases "fst (invoke_model w body)")
     (simp_all add: generate_answer_text_def fst_io_bind_Inr call_build_request_body_def
        io_try_def io_bind_Inl)

lemma invoke_model_raises:
  "bedrock_invoke w body None = Inl e \<Longrightarrow> fst (invoke_model w body) = Inl e"
  by (simp add: invoke_model_def invoke_model_response_def)

text \<open>
  C8. Once the context is formatted, the intent analysis has returned an intent and the
  request body is built, a \<open>ClientError\<close> of the model invocation makes
  \<open>generate_answer_text\<close> return the empty dictionary (with the formatted documents), and
  a \<open>ParamValidationError\<close> makes it raise \<open>ValueError\<close>.
\<close>

theorem generate_answer_text_errors:
  assumes "fst (format cfg documents) = Inr (context, formatted)"
    and "fst (get_query_intent w q) = Inr (Some qi)"
    and "build_request_body w (Some ''answer_question'')
           [JStr context, reformulated_query qi] instruction_values = Inr body"
  shows "(bedrock_invoke w body None = Inl ClientError
            \<longrightarrow> fst (generate_answer_text format w cfg q documents instruction_values)
                  = Inr (JObj [], formatted))
     \<and> (bedrock_invoke w body None = Inl ParamValidationError
            \<longrightarrow> fst (generate_answer_text format w cfg q documents instruction_values)
                  = Inl ValueError)"
  using generate_answer_text_invoke
      [where format = format and cfg = cfg and documents = documents, OF assms]
    invoke_model_raises [of w body]
  by simp

text \<open>
  The invocation of the template \<open>answer_question\<close> raises: a client error gives the empty
  answer, a parameter validation error gives \<open>ValueError\<close>.
\<close>

theorem generate_answer_text_errors_witness:
  "fst (generate_answer_text format_context
          (scripted_world ''answer_question'' ClientError parsed_answers) base_config ''q''
          [chunk_hit ''A'' 0.9 ''a''] [''''])
     = Inr (JObj [], [chunk_hit ''A'' 0.9 ''a''])
   \<and> fst (generate_answer_text format_context
          (scripted_world ''answer_question'' ParamValidationError parsed_answers) base_config ''q''
          [chunk_hit ''A'' 0.9 ''a''] [''''])
     = Inl ValueError"
  (is "?client \<and> ?param")
proof -
  let ?ctx = "''<documents><document><document_id>1</document_id><document_excerpt>a</document_excerpt></document></documents>''"
  let ?qi = "\<lparr>intent = JStr ''ask'', reformulated_query = JStr ''rq''\<rparr>"
  have fmt: "fst (format_context base_config [chunk_hit ''A'' 0.9 ''a''])
               = Inr (?ctx, [chunk_hit ''A'' 0.9 ''a''])"
    by (simp add: format_context_def replace_metadata_keys_def base_config_def chunk_hit_def
          str_nat.simps remove_non_printable_def isprintable_def replace_char_def)
  have qi: "fst (get_query_intent (scripted_world ''answer_question'' err parsed_answers) ''q'')
              = Inr (Some ?qi)" for err
    by (simp add: get_query_intent_def call_build_request_body_def invoke_model_def
          invoke_model_response_def answer_json_def py_get_def py_item0_def truthy_def loads_def
          io_try_def io_return_def scripted_world_def parsed_answers_def)
  have body: "build_request_body (scripted_world ''answer_question'' err parsed_answers)
                (Some ''answer_question'') [JStr ?ctx, reformulated_query ?qi] ['''']
              = Inr (Some (JStr ''answer_question''))" for err
    by (simp add: scripted_world_def)
  have inv: "bedrock_invoke (scripted_world ''answer_question'' err parsed_answers)
                (Some (JStr ''answer_question'')) None = Inl err" for err
    by (simp add: scripted_world_def)
  note t = generate_answer_text_errors
    [where format = format_context and cfg = base_config
       and documents = "[chunk_hit ''A'' 0.9 ''a'']", OF fmt qi body]
  from t inv [of ClientError]
  have c: "?client" by blast
  from t inv [of ParamValidationError]
  have p: "?param" by blast
  from c p show ?thesis by blast
qed

text \<open>
  C2. The text of the model's answer to the intent request does not parse:
  \<open>get_query_intent\<close> returns \<open>None\<close>, and \<open>generate_answer_text\<close> then raises
  \<open>AttributeError\<close> on \<open>query_analysis_elements.reformulated_query\<close>; it builds no request
  from the original question.
\<close>

theorem generate_answer_text_unparsable_intent:
  "fst (get_query_intent (scripted_world ''none'' OtherError malformed_answers) ''q'') = Inr None
   \<and> fst (generate_answer_text format_context
            (scripted_world ''none'' OtherError malformed_answers) base_config ''q''
            [chunk_hit ''A'' 0.9 ''a''] ['''']) = Inl AttributeError"
proof -
  let ?ctx = "''<documents><document><document_id>1</document_id><document_excerpt>a</document_excerpt></document></documents>''"
  have fmt: "fst (format_context base_config [chunk_hit ''A'' 0.9 ''a''])
               = Inr (?ctx, [chunk_hit ''A'' 0.9 ''a''])"
    by (simp add: format_context_def replace_metadata_keys_def base_config_def chunk_hit_def
          str_nat.simps remove_non_printable_def isprintable_def replace_char_def)
  have none: "fst (get_query_intent (scripted_world ''none'' OtherError malformed_answers) ''q'')
                = Inr None"
    by (simp add: get_query_intent_def call_build_request_body_def invoke_model_def
          invoke_model_response_def answer_json_def py_get_def py_item0_def truthy_def loads_def
          io_try_def io_raise_def json_decode_handler_def
          scripted_world_def malformed_answers_def)
  from generate_answer_text_no_intent
    [where format = format_context and cfg = base_config
       and documents = "[chunk_hit ''A'' 0.9 ''a'']", OF fmt none] none
  show ?thesis by blast
qed

section \<open>Properties of the context order\<close>


















end
